theory Spec2Isabelle
  imports Complex_Main
begin

section \<open>JavaScript values\<close>

text \<open>
  The services are JavaScript. A JS number is modelled as the real it stands for, and the
  arithmetic of the model is exact, where the code rounds the result of every operation
  to the nearest double. The two agree up to that rounding error, which is far below
  \<open>10\<^sup>-\<^sup>9\<close> for the magnitudes met here. Where a result is rounded afterwards
  (\<open>toFixed\<close>, \<open>Math.round\<close>) they can differ only if the exact value lies within
  the rounding error of a tie, so a statement that gives a rounded result exactly leaves
  out the values within \<open>10\<^sup>-\<^sup>9\<close> of a tie. A property that is absent
  (\<open>undefined\<close>) is \<open>None\<close>.
\<close>

text \<open>
  \<open>parseFloat(x.toFixed(d))\<close>: the decimal with \<open>d\<close> fraction digits nearest to
  \<open>x\<close>; of two equally near candidates \<open>toFixed\<close> takes the larger one for the
  magnitude of \<open>x\<close> and puts the sign back afterwards.
\<close>

definition toFixed :: "nat \<Rightarrow> real \<Rightarrow> real" where
  "toFixed d x =
     (if x < 0 then - (of_int \<lfloor>(- x) * 10 ^ d + 1 / 2\<rfloor> / 10 ^ d)
      else of_int \<lfloor>x * 10 ^ d + 1 / 2\<rfloor> / 10 ^ d)"

text \<open>\<open>Math.round\<close>: the nearest integer, a half rounding up.\<close>

definition Math_round :: "real \<Rightarrow> int" where
  "Math_round x = \<lfloor>x + 1 / 2\<rfloor>"

section \<open>Emotion results\<close>

text \<open>
  The object every analysis step returns. Only the fields read by later steps are kept;
  \<open>analysis_method\<close> is \<open>metadata.analysis_method\<close>, the path that produced the result.
\<close>

record emotion_result =
  emotion :: "string option"
  intensity :: real
  confidence :: real
  analysis_method :: string

section \<open>Multimodal fusion (emotionAnalysis.js, fuseEmotionResults)\<close>

definition textWeight :: real where "textWeight = 0.8"
definition audioWeight :: real where "audioWeight = 0.2"

definition fuseEmotionResults :: "emotion_result \<Rightarrow> emotion_result \<Rightarrow> emotion_result" where
  "fuseEmotionResults textResult audioResult =
     (let emotionsMatch = (emotion textResult = emotion audioResult);
          finalIntensity = intensity textResult * textWeight + intensity audioResult * audioWeight;
          finalConfidence0 = confidence textResult * textWeight + confidence audioResult * audioWeight;
          finalConfidence = (if emotionsMatch then min (finalConfidence0 * 1.2) 0.95
                             else finalConfidence0 * 0.8);
          finalEmotion = (if \<not> emotionsMatch \<and> confidence audioResult > confidence textResult
                          then emotion audioResult else emotion textResult)
      in \<lparr>emotion = finalEmotion,
          intensity = toFixed 2 finalIntensity,
          confidence = toFixed 2 finalConfidence,
          analysis_method = ''multimodal_fusion''\<rparr>)"

section \<open>Strings\<close>

text \<open>
  Texts are ASCII strings. \<open>toLowerCase\<close> maps \<open>A\<close>..\<open>Z\<close> to \<open>a\<close>..\<open>z\<close>,
  \<open>trim\<close> removes white space at both ends, and a word character (the class \<open>\w\<close>
  of a regular expression, which also decides \<open>\b\<close>) is a letter, a digit or \<open>_\<close>.
\<close>

definition lowerChar :: "char \<Rightarrow> char" where
  "lowerChar c =
     (case map_of (zip ''ABCDEFGHIJKLMNOPQRSTUVWXYZ'' ''abcdefghijklmnopqrstuvwxyz'') c of
        None \<Rightarrow> c
      | Some l \<Rightarrow> l)"

definition toLowerCase :: "string \<Rightarrow> string" where
  "toLowerCase s = map lowerChar s"

definition isSpace :: "char \<Rightarrow> bool" where
  "isSpace c = ((of_char c :: nat) \<in> {9, 10, 11, 12, 13, 32})"

definition trim :: "string \<Rightarrow> string" where
  "trim s = rev (dropWhile isSpace (rev (dropWhile isSpace s)))"

definition isWordChar :: "char \<Rightarrow> bool" where
  "isWordChar c =
     (let n = (of_char c :: nat)
      in (48 \<le> n \<and> n \<le> 57) \<or> (65 \<le> n \<and> n \<le> 90) \<or> n = 95 \<or> (97 \<le> n \<and> n \<le> 122))"

text \<open>The maximal runs of word characters of a text, left to right.\<close>

fun runs :: "string \<Rightarrow> string list" where
  "runs [] = [[]]"
| "runs (c # cs) =
     (if isWordChar c
      then (case runs cs of [] \<Rightarrow> [[c]] | w # ws \<Rightarrow> (c # w) # ws)
      else [] # runs cs)"

definition wordsOf :: "string \<Rightarrow> string list" where
  "wordsOf s = filter (\<lambda>w. w \<noteq> []) (runs s)"

fun isPrefixOf :: "string \<Rightarrow> string \<Rightarrow> bool" where
  "isPrefixOf [] w = True"
| "isPrefixOf (p # ps) [] = False"
| "isPrefixOf (p # ps) (c # cs) = (p = c \<and> isPrefixOf ps cs)"

section \<open>Keyword classifier (emotionAnalysis.js, analyzeTextWithKeywords)\<close>

text \<open>
  What the service takes from outside: the tokenizer and the sentiment analyser of the
  libraries it loads, the provider keys of the process environment, and the answer of the
  provider to a prompt. A reply is \<open>AIThrows\<close> when the call itself fails (network error,
  time-out, a status that is not OK, text that is not JSON, JSON that is not an object);
  otherwise it carries the three fields the service reads, a numeric field being
  \<open>None\<close> when it is absent or not a number.
\<close>

datatype provider = Gemini | OpenAI | Anthropic

datatype ai_reply =
    AIThrows
  | AIReply (reply_emotion: "string option") (reply_intensity: "real option")
      (reply_confidence: "real option")

record services =
  tokenize :: "string \<Rightarrow> string list"
  sentimentScore :: "string \<Rightarrow> real"
  GEMINI_API_KEY :: bool
  OPENAI_API_KEY :: bool
  ANTHROPIC_API_KEY :: bool
  callProvider :: "provider \<Rightarrow> string \<Rightarrow> ai_reply"

definition emotionKeywords :: "(string \<times> string list) list" where
  "emotionKeywords =
     [(''happy'',
        [''happy'', ''joy'', ''excited'', ''amazing'', ''wonderful'', ''great'', ''fantastic'',
         ''love'', ''perfect'', ''awesome'', ''brilliant'', ''cheerful'', ''delighted'',
         ''thrilled'', ''ecstatic'', ''blissful'', ''content'', ''satisfied'', ''pleased'']),
      (''sad'',
        [''sad'', ''depressed'', ''down'', ''upset'', ''terrible'', ''awful'', ''horrible'',
         ''disappointed'', ''heartbroken'', ''miserable'', ''gloomy'', ''melancholy'',
         ''sorrowful'', ''dejected'', ''despondent'', ''grief'', ''mourning'', ''crying'',
         ''unhappy'', ''unfortunate'', ''regret'', ''lonely'', ''alone'', ''isolated'',
         ''hurt'', ''pain'', ''suffering'', ''blue'', ''low'', ''hopeless'', ''discouraged'']),
      (''angry'',
        [''angry'', ''mad'', ''furious'', ''irritated'', ''annoyed'', ''frustrated'',
         ''outraged'', ''livid'', ''enraged'', ''hostile'', ''aggressive'', ''bitter'',
         ''resentful'', ''indignant'', ''irate'', ''rage'', ''wrath'', ''hatred'']),
      (''anxious'',
        [''anxious'', ''worried'', ''nervous'', ''stressed'', ''overwhelmed'', ''panic'',
         ''scared'', ''afraid'', ''fearful'', ''concerned'', ''troubled'', ''uneasy'',
         ''restless'', ''tense'', ''apprehensive'', ''paranoid'', ''insecure'', ''dread'']),
      (''calm'',
        [''calm'', ''peaceful'', ''relaxed'', ''serene'', ''tranquil'', ''composed'',
         ''zen'', ''balanced'', ''centered'', ''still'', ''quiet'', ''soothed'',
         ''restful'', ''gentle'', ''mild'', ''placid'', ''undisturbed'', ''harmonious'']),
      (''neutral'',
        [''okay'', ''fine'', ''normal'', ''regular'', ''average'', ''ordinary'',
         ''usual'', ''standard'', ''typical'', ''moderate'', ''balanced'', ''stable''])]"

text \<open>
  The pattern of an emotion is \<open>\b(k1|k2|...)\b\<close> with the flags \<open>gi\<close>, and
  \<open>cleanText.match\<close> returns its successive matches. Every keyword is made of letters
  only, so a match with a word boundary at both ends is a maximal run of word characters
  that equals a keyword, and each such run is one match: the number of matches is the
  number of words of the text that are keywords.
\<close>

definition countMatches :: "string list \<Rightarrow> string \<Rightarrow> nat" where
  "countMatches keywords cleanText = length (filter (\<lambda>w. w \<in> set keywords) (wordsOf cleanText))"

definition emotionScores :: "string \<Rightarrow> (string \<times> nat) list" where
  "emotionScores cleanText = map (\<lambda>(e, kws). (e, countMatches kws cleanText)) emotionKeywords"

definition totalMatches :: "string \<Rightarrow> nat" where
  "totalMatches cleanText = sum_list (map snd (emotionScores cleanText))"

text \<open>
  The loop over \<open>Object.entries(emotionScores)\<close>: a strictly larger score replaces the
  primary emotion, so the first emotion with the largest score is kept.
\<close>

fun pickPrimary :: "(string \<times> nat) list \<Rightarrow> string \<times> nat \<Rightarrow> string \<times> nat" where
  "pickPrimary [] acc = acc"
| "pickPrimary ((e, score) # rest) (primaryEmotion, maxScore) =
     (if score > maxScore then pickPrimary rest (e, score)
      else pickPrimary rest (primaryEmotion, maxScore))"

definition negativePrefixes :: "string list" where
  "negativePrefixes =
     [''un'', ''not'', ''never'', ''no'', ''dis'', ''hate'', ''terrible'', ''awful'', ''bad'',
      ''worse'', ''worst'', ''unfortunately'', ''sadly'']"

text \<open>
  \<open>/\b(un|not|...|sadly)\w*/gi.test(cleanText)\<close>: each alternative starts with a
  letter, so the boundary in front of it is the start of a word; the test holds when a
  word of the text starts with one of the alternatives.
\<close>

definition hasNegativeWords :: "string \<Rightarrow> bool" where
  "hasNegativeWords cleanText =
     list_ex (\<lambda>w. list_ex (\<lambda>p. isPrefixOf p w) negativePrefixes) (wordsOf cleanText)"

definition analyzeTextWithKeywords :: "services \<Rightarrow> string \<Rightarrow> emotion_result" where
  "analyzeTextWithKeywords S text =
     (let cleanText = trim (toLowerCase text);
          tokens = tokenize S cleanText;
          score = sentimentScore S text;
          (primaryEmotion, maxScore, intensity0) =
            (if totalMatches cleanText > 0
             then (let (e, m) = pickPrimary (emotionScores cleanText) (''neutral'', 0)
                   in (e, m,
                       if length tokens = 0 then 1
                       else min (real m / real (length tokens) * 10 + \<bar>score / 10\<bar>) 1))
             else if hasNegativeWords cleanText \<or> score < - 1
               then (''sad'', 0, min (\<bar>score\<bar> / 8) 0.8)
             else if score > 3
               then (''happy'', 0, min (score / 10) 0.9)
             else (''neutral'', 0, 0.5));
          confidence0 =
            (if totalMatches cleanText > 0 then min (0.7 + real maxScore * 0.1) 0.9
             else min (0.4 + \<bar>score\<bar> * 0.05) 0.7)
      in \<lparr>emotion = Some primaryEmotion,
          intensity = toFixed 2 intensity0,
          confidence = toFixed 2 confidence0,
          analysis_method = ''keyword_sentiment_hybrid''\<rparr>)"

text \<open>
  In the first branch some emotion has a match, so \<open>maxScore\<close> is positive there: with
  no token the quotient \<open>maxScore / tokens.length\<close> is \<open>Infinity\<close> and
  \<open>Math.min\<close> returns 1.
\<close>

section \<open>Classification pipeline (emotionAnalysis.js, analyzeText and analyzeTextWithAI)\<close>

text \<open>
  An exception is an error value. \<open>analyzeTextWithAI\<close> builds its result inside a
  \<open>try\<close> whose \<open>catch\<close> calls the keyword classifier, so a missing key, a failed
  call, and a reply whose intensity or confidence has no \<open>toFixed\<close> all end in the
  keyword classifier. The emotion of the reply is copied as it is.
\<close>

datatype error = Error string | TypeError string

datatype js_value = JUndefined | JNull | JBool bool | JNum real | JStr string | JObject

definition useAI :: "services \<Rightarrow> bool" where
  "useAI S = (GEMINI_API_KEY S \<or> OPENAI_API_KEY S \<or> ANTHROPIC_API_KEY S)"

definition configuredProvider :: "services \<Rightarrow> provider option" where
  "configuredProvider S =
     (if GEMINI_API_KEY S then Some Gemini
      else if OPENAI_API_KEY S then Some OpenAI
      else if ANTHROPIC_API_KEY S then Some Anthropic
      else None)"

definition analyzeTextWithAI :: "services \<Rightarrow> string \<Rightarrow> emotion_result" where
  "analyzeTextWithAI S text =
     (case configuredProvider S of
        None \<Rightarrow> analyzeTextWithKeywords S text
      | Some p \<Rightarrow>
          (case callProvider S p text of
             AIThrows \<Rightarrow> analyzeTextWithKeywords S text
           | AIReply e None c \<Rightarrow> analyzeTextWithKeywords S text
           | AIReply e (Some i) None \<Rightarrow> analyzeTextWithKeywords S text
           | AIReply e (Some i) (Some c) \<Rightarrow>
               \<lparr>emotion = e,
                intensity = toFixed 2 i,
                confidence = toFixed 2 c,
                analysis_method = ''ai_powered''\<rparr>))"

definition analyzeText :: "services \<Rightarrow> js_value \<Rightarrow> error + emotion_result" where
  "analyzeText S text =
     (case text of
        JStr s \<Rightarrow>
          (if s = []
           then Inl (Error ''Text emotion analysis failed: Invalid text input for emotion analysis'')
           else if useAI S then Inr (analyzeTextWithAI S s)
           else Inr (analyzeTextWithKeywords S s))
      | _ \<Rightarrow> Inl (Error ''Text emotion analysis failed: Invalid text input for emotion analysis''))"

section \<open>Wellness aggregation (sessionCompletion.js)\<close>

text \<open>
  One question and answer of a session. The emotion and the intensity are copied from
  the classification of the answer; either may be absent. As a property key an absent
  emotion is the string \<open>undefined\<close>.

  The code looks labels up in plain objects (\<open>emotionScores[label]\<close>,
  \<open>emotionCounts[label]\<close>). The model follows it for the labels that name no member
  every object inherits and, where the order of the keys matters, that are no array
  index; the statements about these look-ups assume such labels.
\<close>

record qa =
  qa_answer :: string
  qa_emotion :: "string option"
  qa_intensity :: "real option"

definition emotionKey :: "qa \<Rightarrow> string" where
  "emotionKey q = (case qa_emotion q of None \<Rightarrow> ''undefined'' | Some e \<Rightarrow> e)"

definition emotionScores_wellness :: "(string \<times> real) list" where
  "emotionScores_wellness =
     [(''happy'', 90), (''excited'', 85), (''calm'', 80), (''peaceful'', 85), (''hopeful'', 75),
      (''neutral'', 60), (''confused'', 45), (''anxious'', 35), (''sad'', 30), (''angry'', 25),
      (''stressed'', 30)]"

text \<open>
  \<open>emotionScores[qa.emotion] || 50\<close>, for a label that names no inherited member, and
  \<open>qa.intensity || 0.5\<close>.
\<close>

definition baseScore :: "qa \<Rightarrow> real" where
  "baseScore q = (case map_of emotionScores_wellness (emotionKey q) of None \<Rightarrow> 50 | Some b \<Rightarrow> b)"

definition intensityOrDefault :: "qa \<Rightarrow> real" where
  "intensityOrDefault q =
     (case qa_intensity q of None \<Rightarrow> 0.5 | Some i \<Rightarrow> if i = 0 then 0.5 else i)"

definition entryScore :: "qa \<Rightarrow> real" where
  "entryScore q = baseScore q * intensityOrDefault q + 60 * (1 - intensityOrDefault q)"

text \<open>The body of the \<open>forEach\<close>: both accumulators after one more entry.\<close>

definition accumulate :: "real \<times> real \<Rightarrow> qa \<Rightarrow> real \<times> real" where
  "accumulate acc q = (case acc of (totalScore, totalWeight) \<Rightarrow> (totalScore + entryScore q, totalWeight + 1))"

definition calculateWellnessScore :: "qa list \<Rightarrow> int" where
  "calculateWellnessScore qaHistory =
     (if qaHistory = [] then 50
      else (let (totalScore, totalWeight) = foldl accumulate (0, 0) qaHistory;
                averageScore = Math_round (totalScore / totalWeight)
            in max 0 (min 100 averageScore)))"

text \<open>
  \<open>emotionCounts\<close> is an object used as a dictionary: for labels that name no
  inherited member and are no array index its keys are kept in the order in which they
  were first written. \<open>countEmotion\<close> is
  \<open>emotionCounts[k] = (emotionCounts[k] || 0) + 1\<close>.
\<close>

fun countEmotion :: "(string \<times> nat) list \<Rightarrow> string \<Rightarrow> (string \<times> nat) list" where
  "countEmotion [] k = [(k, 1)]"
| "countEmotion ((k', n) # rest) k =
     (if k' = k then (k', n + 1) # rest else (k', n) # countEmotion rest k)"

definition countOf :: "(string \<times> nat) list \<Rightarrow> string \<Rightarrow> nat" where
  "countOf counts k = (case map_of counts k of None \<Rightarrow> 0 | Some n \<Rightarrow> n)"

text \<open>
  \<open>Object.keys(emotionCounts).reduce((a, b) => emotionCounts[a] > emotionCounts[b] ? a : b)\<close>:
  without an initial value \<open>reduce\<close> starts from the first key and throws a
  \<open>TypeError\<close> on an empty array.
\<close>

definition reduceDominant :: "(string \<times> nat) list \<Rightarrow> error + string" where
  "reduceDominant counts =
     (case map fst counts of
        [] \<Rightarrow> Inl (TypeError ''Reduce of empty array with no initial value'')
      | k # ks \<Rightarrow> Inr (foldl (\<lambda>a b. if countOf counts a > countOf counts b then a else b) k ks))"

text \<open>
  The report, without the recommendations, places, communities and encouragement: they
  are computed after the fields below, from them and from the answers, and their
  generators return a value for every session (the place generator catches its own
  failures).
\<close>

record session_report =
  wellnessScore :: int
  wellnessMessage :: string
  wellnessColor :: string
  dominantEmotion :: string
  emotionCounts :: "(string \<times> nat) list"

definition generateSessionCompletion :: "qa list \<Rightarrow> error + session_report" where
  "generateSessionCompletion qaHistory =
     (let score = calculateWellnessScore qaHistory;
          counts = foldl countEmotion [] (map emotionKey qaHistory)
      in case reduceDominant counts of
           Inl e \<Rightarrow> Inl e
         | Inr dominant \<Rightarrow>
             Inr \<lparr>wellnessScore = score,
                  wellnessMessage =
                    (if score \<ge> 70 then ''You are doing great! Keep up the positive momentum.''
                     else if score \<ge> 50 then ''You are managing well. Small steps lead to big changes.''
                     else if score \<ge> 30 then ''Things are challenging right now. Remember, help is available.''
                     else ''You are going through a difficult time. Please reach out for support.''),
                  wellnessColor =
                    (if score \<ge> 70 then ''text-green-600''
                     else if score \<ge> 50 then ''text-yellow-600''
                     else if score \<ge> 30 then ''text-orange-600''
                     else ''text-red-600''),
                  dominantEmotion = dominant,
                  emotionCounts = counts\<rparr>)"

section \<open>Compatibility scoring (friendMatching.js)\<close>

record user =
  user_city :: "string option"
  user_age :: "int option"
  user_interests :: "string list option"

record entry =
  entry_emotion :: "string option"

definition emotionVectors :: "(string \<times> real list) list" where
  "emotionVectors =
     [(''happy'', [1, 0.8, 0.2, 0.1, 0.3, 0.5]),
      (''sad'', [0.1, 0.2, 1, 0.3, 0.1, 0.4]),
      (''angry'', [0.2, 0.1, 0.4, 1, 0.2, 0.3]),
      (''anxious'', [0.3, 0.2, 0.6, 0.7, 1, 0.4]),
      (''calm'', [0.6, 0.9, 0.1, 0.1, 0.2, 1]),
      (''neutral'', [0.5, 0.5, 0.5, 0.5, 0.5, 0.5])]"

definition neutralVector :: "real list" where
  "neutralVector = [0.5, 0.5, 0.5, 0.5, 0.5, 0.5]"

text \<open>\<open>entry.emotion || 'neutral'\<close>, then \<open>emotionVectors[emotion] || emotionVectors.neutral\<close>.\<close>

definition vectorOf :: "entry \<Rightarrow> real list" where
  "vectorOf e =
     (let emotion = (case entry_emotion e of None \<Rightarrow> ''neutral''
                     | Some l \<Rightarrow> if l = [] then ''neutral'' else l)
      in case map_of emotionVectors emotion of None \<Rightarrow> neutralVector | Some v \<Rightarrow> v)"

definition getMoodVector :: "entry list \<Rightarrow> real list" where
  "getMoodVector entries =
     (if entries = [] then [0, 0, 0, 0, 0, 0]
      else (let vectors = map vectorOf entries
            in map (\<lambda>i. foldl (\<lambda>acc vector. acc + vector ! i) 0 vectors / real (length vectors))
                 [0 ..< 6]))"

text \<open>\<open>entries.slice(-3)\<close>: the last three entries, or all of them when there are fewer.\<close>

definition lastThree :: "'a list \<Rightarrow> 'a list" where
  "lastThree xs = drop (length xs - 3) xs"

text \<open>
  \<open>cosine\<close> is imported from the library \<open>ml-distance\<close> and is a parameter here; it
  returns \<open>None\<close> when the call throws, which the \<open>catch\<close> turns into 0.2.
\<close>

definition calculateMoodSimilarity ::
  "(real list \<Rightarrow> real list \<Rightarrow> real option) \<Rightarrow> entry list \<Rightarrow> entry list \<Rightarrow> real" where
  "calculateMoodSimilarity cosine entries1 entries2 =
     (if entries1 = [] \<or> entries2 = [] then 0.2
      else (let vector1 = getMoodVector (lastThree entries1);
                vector2 = getMoodVector (lastThree entries2)
            in case cosine vector1 vector2 of
                 None \<Rightarrow> 0.2
               | Some d \<Rightarrow> max 0 (min 1 (1 - d))))"

definition getBigrams :: "string \<Rightarrow> string list" where
  "getBigrams str = map (\<lambda>i. take 2 (drop i str)) [0 ..< length str - 1]"

definition calculateStringSimilarity :: "string \<Rightarrow> string \<Rightarrow> real" where
  "calculateStringSimilarity str1 str2 =
     (if str1 = str2 then 1
      else if str1 = [] \<or> str2 = [] then 0
      else (let set1 = set (getBigrams str1);
                set2 = set (getBigrams str2)
            in if card (set1 \<union> set2) = 0 then 0
               else real (card (set1 \<inter> set2)) / real (card (set1 \<union> set2))))"

text \<open>A city is missing (\<open>!user.city\<close>) when it is absent or the empty string.\<close>

definition calculateLocationMatch :: "user \<Rightarrow> user \<Rightarrow> real" where
  "calculateLocationMatch user1 user2 =
     (case (user_city user1, user_city user2) of
        (Some c1, Some c2) \<Rightarrow>
          (if c1 = [] \<or> c2 = [] then 0.1
           else (let city1 = trim (toLowerCase c1);
                     city2 = trim (toLowerCase c2)
                 in if city1 = city2 then 1
                    else (let similarity = calculateStringSimilarity city1 city2
                          in if similarity > 0.8 then 0.8
                             else if similarity > 0.6 then 0.5
                             else 0.1)))
      | _ \<Rightarrow> 0.1)"

definition calculateInterestOverlap :: "string list \<Rightarrow> string list \<Rightarrow> real" where
  "calculateInterestOverlap interests1 interests2 =
     (if interests1 = [] \<or> interests2 = [] then 0.1
      else (let set1 = set (map toLowerCase interests1);
                set2 = set (map toLowerCase interests2)
            in real (card (set1 \<inter> set2)) / real (card (set1 \<union> set2))))"

text \<open>An age is missing (\<open>!age\<close>) when it is absent or 0.\<close>

definition calculateAgeCompatibility :: "int option \<Rightarrow> int option \<Rightarrow> real" where
  "calculateAgeCompatibility age1 age2 =
     (case (age1, age2) of
        (Some a1, Some a2) \<Rightarrow>
          (if a1 = 0 \<or> a2 = 0 then 0.5
           else (let ageDiff = \<bar>a1 - a2\<bar>
                 in if ageDiff \<le> 3 then 1
                    else if ageDiff \<le> 7 then 0.8
                    else if ageDiff \<le> 12 then 0.6
                    else if ageDiff \<le> 18 then 0.4
                    else 0.2))
      | _ \<Rightarrow> 0.5)"

definition calculateActivityMatch :: "entry list \<Rightarrow> entry list \<Rightarrow> real" where
  "calculateActivityMatch entries1 entries2 =
     (let activity1 = length entries1;
          activity2 = length entries2
      in if activity1 = 0 \<and> activity2 = 0 then 0.5
         else (let maxActivity = max activity1 activity2;
                   minActivity = min activity1 activity2
               in if maxActivity = 0 then 0 else real minActivity / real maxActivity))"

record breakdown =
  location :: real
  mood :: real
  interests :: real
  age :: real
  activity :: real

record match_score =
  total_score :: real
  breakdown :: breakdown

definition weights :: breakdown where
  "weights = \<lparr>location = 0.4, mood = 0.35, interests = 0.15, age = 0.05, activity = 0.05\<rparr>"

definition interestsOrEmpty :: "user \<Rightarrow> string list" where
  "interestsOrEmpty u = (case user_interests u of None \<Rightarrow> [] | Some l \<Rightarrow> l)"

definition calculateMatchScore ::
  "(real list \<Rightarrow> real list \<Rightarrow> real option) \<Rightarrow> user \<Rightarrow> user \<Rightarrow> entry list \<Rightarrow> entry list
     \<Rightarrow> match_score" where
  "calculateMatchScore cosine user1 user2 user1Entries user2Entries =
     (let b = \<lparr>location = calculateLocationMatch user1 user2,
               mood = calculateMoodSimilarity cosine user1Entries user2Entries,
               interests = calculateInterestOverlap (interestsOrEmpty user1) (interestsOrEmpty user2),
               age = calculateAgeCompatibility (user_age user1) (user_age user2),
               activity = calculateActivityMatch user1Entries user2Entries\<rparr>;
          total0 = foldl (\<lambda>sum factor. sum + factor b * factor weights) 0
                     [location, mood, interests, age, activity]
      in \<lparr>total_score = toFixed 3 total0, breakdown = b\<rparr>)"

section \<open>Compatibility scoring of the local store (localDatabase.js)\<close>

definition calculateMatchScore_local :: "user \<Rightarrow> user \<Rightarrow> real" where
  "calculateMatchScore_local user1 user2 =
     (let locationScore =
            (case (user_city user1, user_city user2) of
               (Some c1, Some c2) \<Rightarrow>
                 if c1 \<noteq> [] \<and> c2 \<noteq> [] \<and> toLowerCase c1 = toLowerCase c2 then 1 else 0.1
             | _ \<Rightarrow> 0.1);
          ageScore =
            (case (user_age user1, user_age user2) of
               (Some a1, Some a2) \<Rightarrow>
                 if a1 = 0 \<or> a2 = 0 then 0
                 else (let ageDiff = \<bar>a1 - a2\<bar>
                       in if ageDiff \<le> 3 then 1
                          else if ageDiff \<le> 7 then 0.8
                          else if ageDiff \<le> 12 then 0.6
                          else 0.4)
             | _ \<Rightarrow> 0);
          interestScore =
            (case (user_interests user1, user_interests user2) of
               (Some i1, Some i2) \<Rightarrow>
                 if i1 \<noteq> [] \<and> i2 \<noteq> []
                 then (let interests1 = set (map toLowerCase i1);
                           interests2 = set (map toLowerCase i2)
                       in real (card (interests1 \<inter> interests2)) / real (card (interests1 \<union> interests2)))
                 else 0
             | _ \<Rightarrow> 0);
          moodScore = 0.5;
          finalScore = locationScore * 0.4 + moodScore * 0.35 + interestScore * 0.15 + ageScore * 0.1
      in real_of_int (Math_round (finalScore * 1000)) / 1000)"

section \<open>The cosine distance\<close>

text \<open>
  Modelled from the spec: the function \<open>cosine\<close> of the library \<open>ml-distance\<close>, which
  is loaded by friendMatching.js and is not part of the sources. The spec reads the mood
  score as \<open>1 - cosineDistance(vectorA, vectorB)\<close>; the cosine distance of two vectors
  is one minus the quotient of their inner product by the product of their norms.
\<close>

definition dot :: "real list \<Rightarrow> real list \<Rightarrow> real" where
  "dot u v = sum_list (map (\<lambda>(x, y). x * y) (zip u v))"

definition cosineDistance :: "real list \<Rightarrow> real list \<Rightarrow> real option" where
  "cosineDistance u v = Some (1 - dot u v / (sqrt (dot u u) * sqrt (dot v v)))"

section \<open>Notions used in the statements\<close>

text \<open>The closed set of emotions of the data model, and what it asks of a result.\<close>

definition closedEmotions :: "string list" where
  "closedEmotions =
     [''happy'', ''sad'', ''angry'', ''anxious'', ''calm'', ''neutral'', ''excited'', ''peaceful'']"

definition wellFormed :: "emotion_result \<Rightarrow> bool" where
  "wellFormed r =
     (0 \<le> intensity r \<and> intensity r \<le> 1 \<and> 0 \<le> confidence r \<and> confidence r \<le> 1
      \<and> (case emotion r of None \<Rightarrow> False | Some e \<Rightarrow> e \<in> set closedEmotions))"

text \<open>The inputs the classification must reject: anything but a non-empty string.\<close>

fun invalidInput :: "js_value \<Rightarrow> bool" where
  "invalidInput (JStr s) = (s = [])"
| "invalidInput v = True"

text \<open>
  The remote step ends in its \<open>catch\<close>: no provider key, a failed call, or a reply whose
  intensity or confidence is not a number.
\<close>

definition remoteStepThrows :: "services \<Rightarrow> string \<Rightarrow> bool" where
  "remoteStepThrows S s =
     (case configuredProvider S of
        None \<Rightarrow> True
      | Some p \<Rightarrow>
          (case callProvider S p s of
             AIThrows \<Rightarrow> True
           | AIReply e i c \<Rightarrow> i = None \<or> c = None))"

definition keywordEmotions :: "string list" where
  "keywordEmotions = [''happy'', ''sad'', ''angry'', ''anxious'', ''calm'', ''neutral'']"

text \<open>
  The members every plain object inherits from \<open>Object.prototype\<close>, and the keys that
  \<open>Object.keys\<close> lists first and in numeric order: the strings of digits.
\<close>

definition inheritedNames :: "string list" where
  "inheritedNames =
     [''constructor'', ''__defineGetter__'', ''__defineSetter__'', ''hasOwnProperty'',
      ''__lookupGetter__'', ''__lookupSetter__'', ''isPrototypeOf'', ''propertyIsEnumerable'',
      ''toString'', ''valueOf'', ''__proto__'', ''toLocaleString'']"

definition isDigit :: "char \<Rightarrow> bool" where
  "isDigit c = (let n = (of_char c :: nat) in 48 \<le> n \<and> n \<le> 57)"

definition indexLike :: "string \<Rightarrow> bool" where
  "indexLike l = (l \<noteq> [] \<and> list_all isDigit l)"

definition ordinaryLabel :: "string \<Rightarrow> bool" where
  "ordinaryLabel l = (l \<notin> set inheritedNames \<and> \<not> indexLike l)"

text \<open>
  A value whose rounding to the nearest integer the rounding error of the double
  arithmetic cannot change: its fractional part is not within \<open>10\<^sup>-\<^sup>9\<close> of one half.
\<close>

definition awayFromTie :: "real \<Rightarrow> bool" where
  "awayFromTie x = (1 / 10 ^ 9 < \<bar>frac x - 1 / 2\<bar>)"

text \<open>An intensity that is missing, or lies in the range of the data model and is not 0.\<close>

definition usableIntensity :: "qa \<Rightarrow> bool" where
  "usableIntensity q = (case qa_intensity q of None \<Rightarrow> True | Some i \<Rightarrow> 0 < i \<and> i \<le> 1)"

text \<open>
  The score of an entry with the defaults of the code: base 50 for an emotion outside
  the table, intensity 0.5 for a missing intensity.
\<close>

definition defaultedEntryScore :: "qa \<Rightarrow> real" where
  "defaultedEntryScore q =
     (let base = (case map_of emotionScores_wellness (emotionKey q) of None \<Rightarrow> 50 | Some b \<Rightarrow> b);
          i = (case qa_intensity q of None \<Rightarrow> 0.5 | Some i \<Rightarrow> i)
      in base * i + 60 * (1 - i))"

text \<open>A profile that has a city, an age and at least one interest.\<close>

definition completeProfile :: "user \<Rightarrow> bool" where
  "completeProfile u =
     ((case user_city u of None \<Rightarrow> False | Some c \<Rightarrow> c \<noteq> [])
      \<and> (case user_age u of None \<Rightarrow> False | Some a \<Rightarrow> a \<noteq> 0)
      \<and> (case user_interests u of None \<Rightarrow> False | Some l \<Rightarrow> l \<noteq> []))"

text \<open>
  The wellness score as the specification words it: an emotion outside the table takes
  the base of \<open>neutral\<close>, and the intensity of an entry is used as it is (an entry
  without intensity is given the 0.5 of the code, the specification being silent).
\<close>

definition claimedEntryScore :: "qa \<Rightarrow> real" where
  "claimedEntryScore q =
     (let base = (case map_of emotionScores_wellness (emotionKey q) of None \<Rightarrow> 60 | Some b \<Rightarrow> b);
          i = (case qa_intensity q of None \<Rightarrow> 0.5 | Some i \<Rightarrow> i)
      in base * i + 60 * (1 - i))"

definition claimedWellnessScore :: "qa list \<Rightarrow> int" where
  "claimedWellnessScore qaHistory =
     max 0 (min 100 (Math_round (sum_list (map claimedEntryScore qaHistory) / real (length qaHistory))))"

section \<open>Example inputs\<close>

text \<open>
  A sentiment analyser in the manner of the library: the sum of the polarities of the
  words of the text, over a lexicon of two words.
\<close>

definition exPolarity :: "(string \<times> real) list" where
  "exPolarity = [(''cut'', - 1), (''happy'', 3)]"

definition exSentiment :: "string \<Rightarrow> real" where
  "exSentiment text =
     sum_list (map (\<lambda>w. case map_of exPolarity w of None \<Rightarrow> 0 | Some v \<Rightarrow> v)
       (wordsOf (toLowerCase text)))"

text \<open>No provider key: the keyword classifier alone.\<close>

definition exLexicon :: services where
  "exLexicon =
     \<lparr>tokenize = wordsOf, sentimentScore = exSentiment,
      GEMINI_API_KEY = False, OPENAI_API_KEY = False, ANTHROPIC_API_KEY = False,
      callProvider = (\<lambda>p prompt. AIThrows)\<rparr>"

text \<open>A provider that is down, one that answers out of range, one that omits the emotion.\<close>

definition exDown :: services where
  "exDown = exLexicon\<lparr>GEMINI_API_KEY := True\<rparr>"

definition exOutOfRange :: services where
  "exOutOfRange =
     exLexicon\<lparr>GEMINI_API_KEY := True,
               callProvider := (\<lambda>p prompt. AIReply (Some ''hopeful'') (Some 1.5) (Some 2))\<rparr>"

definition exNoEmotion :: services where
  "exNoEmotion =
     exLexicon\<lparr>OPENAI_API_KEY := True,
               callProvider := (\<lambda>p prompt. AIReply None (Some 0.5) (Some 0.5))\<rparr>"

definition exText :: emotion_result where
  "exText = \<lparr>emotion = Some ''happy'', intensity = 0.51, confidence = 0.1,
             analysis_method = ''ai_powered''\<rparr>"

definition exAudio :: emotion_result where
  "exAudio = \<lparr>emotion = Some ''happy'', intensity = 0.52, confidence = 0.9,
              analysis_method = ''mock_audio_classifier''\<rparr>"

definition exAudioSad :: emotion_result where
  "exAudioSad = \<lparr>emotion = Some ''sad'', intensity = 0.52, confidence = 0.9,
                 analysis_method = ''mock_audio_classifier''\<rparr>"

definition exTurn :: "string \<Rightarrow> real \<Rightarrow> qa" where
  "exTurn e i = \<lparr>qa_answer = ''yes'', qa_emotion = Some e, qa_intensity = Some i\<rparr>"

definition exAustin :: user where
  "exAustin = \<lparr>user_city = Some ''Austin'', user_age = Some 30,
               user_interests = Some [''yoga'', ''music'']\<rparr>"

definition exBoston :: user where
  "exBoston = \<lparr>user_city = Some ''Boston'', user_age = Some 34,
               user_interests = Some [''Music'']\<rparr>"

definition exNoAge :: user where
  "exNoAge = \<lparr>user_city = Some ''Austin'', user_age = None,
              user_interests = Some [''yoga'', ''music'']\<rparr>"

definition exHistoryA :: "entry list" where
  "exHistoryA = [\<lparr>entry_emotion = Some ''happy''\<rparr>]"

definition exHistoryB :: "entry list" where
  "exHistoryB = [\<lparr>entry_emotion = Some ''sad''\<rparr>, \<lparr>entry_emotion = Some ''calm''\<rparr>]"



text \<open>A \<open>cosine\<close> whose call throws.\<close>

definition exThrows :: "real list \<Rightarrow> real list \<Rightarrow> real option" where
  "exThrows u v = None"

definition exSessionMixed :: "qa list" where
  "exSessionMixed = [exTurn ''anxious'' 0.5, exTurn ''happy'' 1, exTurn ''sad'' 0.25]"

definition exSession :: "qa list" where
  "exSession = [exTurn ''happy'' 1, exTurn ''sad'' 0.5, exTurn ''happy'' 1]"

section \<open>Properties of the rounding\<close>

lemma toFixed_mono_nonneg:
  assumes "0 \<le> x" and "x \<le> y"
  shows "toFixed d x \<le> toFixed d y"
proof -
  have "x * 10 ^ d + 1 / 2 \<le> y * 10 ^ d + 1 / 2"
    using assms by (simp add: mult_right_mono)
  then have "\<lfloor>x * 10 ^ d + 1 / 2\<rfloor> \<le> \<lfloor>y * 10 ^ d + 1 / 2\<rfloor>"
    by (rule floor_mono)
  then have "(of_int \<lfloor>x * 10 ^ d + 1 / 2\<rfloor> :: real) / 10 ^ d \<le> of_int \<lfloor>y * 10 ^ d + 1 / 2\<rfloor> / 10 ^ d"
    by (simp add: divide_right_mono)
  with assms show ?thesis
    by (simp add: toFixed_def)
qed

lemma toFixed_nonneg:
  assumes "0 \<le> x"
  shows "0 \<le> toFixed d x"
proof -
  have "0 \<le> x * 10 ^ d + 1 / 2"
    using assms by simp
  then have "0 \<le> \<lfloor>x * 10 ^ d + 1 / 2\<rfloor>"
    by simp
  with assms show ?thesis
    by (simp add: toFixed_def)
qed

lemma floor_add_half: "\<lfloor>real_of_int k + 1 / 2\<rfloor> = k"
  by linarith

lemma toFixed_decimal:
  assumes "0 \<le> k"
  shows "toFixed d (of_int k / 10 ^ d) = of_int k / 10 ^ d"
proof -
  have "\<not> (real_of_int k / 10 ^ d < 0)"
    using assms by (simp add: not_less)
  then show ?thesis
    by (simp add: toFixed_def floor_add_half)
qed

lemma toFixed_one: "toFixed d 1 = 1"
  using toFixed_decimal [of "10 ^ d" d] by simp

lemma toFixed_le_one:
  assumes "0 \<le> x" and "x \<le> 1"
  shows "toFixed d x \<le> 1"
  using toFixed_mono_nonneg [OF assms, of d] by (simp add: toFixed_one)

lemma toFixed_unit:
  assumes "0 \<le> x" and "x \<le> 1"
  shows "0 \<le> toFixed d x \<and> toFixed d x \<le> 1"
  using assms by (simp add: toFixed_nonneg toFixed_le_one)

lemma min_unit:
  fixes a b :: real
  assumes "0 \<le> a" and "0 \<le> b" and "b \<le> 1"
  shows "0 \<le> min a b \<and> min a b \<le> 1"
  using assms by (simp add: min_def)

text \<open>The definitions a concrete text is evaluated with.\<close>

lemmas string_defs = trim_def toLowerCase_def lowerChar_def isSpace_def isWordChar_def wordsOf_def

lemmas keyword_defs = analyzeTextWithKeywords_def totalMatches_def emotionScores_def
  emotionKeywords_def countMatches_def hasNegativeWords_def negativePrefixes_def

lemmas example_services = exLexicon_def exSentiment_def exPolarity_def exDown_def
  exOutOfRange_def exNoEmotion_def

section \<open>Multimodal fusion\<close>

text \<open>
  Claim C7, as stated: the fused intensity and confidence are the weighted averages
  themselves. They are returned through \<open>toFixed(2)\<close>: intensities 0.51 and 0.52 have
  the weighted average 0.512 and fuse to 0.51.
\<close>

theorem fuse_rounding_counterexample:
  "intensity (fuseEmotionResults exText exAudio) = 0.51
   \<and> 0.8 * intensity exText + 0.2 * intensity exAudio = 0.512
   \<and> intensity (fuseEmotionResults exText exAudio)
       \<noteq> 0.8 * intensity exText + 0.2 * intensity exAudio"
  by (simp add: fuseEmotionResults_def textWeight_def audioWeight_def Let_def exText_def
        exAudio_def toFixed_def)

text \<open>
  Claim C7, amended. For inputs whose intensities and confidences lie in [0,1],
  \<open>fuseEmotionResults\<close> returns, rounded to two decimals, the averages of the two
  intensities and of the two confidences with weights 0.8 (text) and 0.2 (audio), the
  confidence multiplied by 1.2 and capped at 0.95 when the two emotions agree and
  multiplied by 0.8 when they disagree. On agreement the emotion is the common one; on
  disagreement it is that of the audio input only if its confidence is strictly higher,
  so a tie keeps the text. A value within \<open>10\<^sup>-\<^sup>9\<close> of a rounding tie is left out:
  there the double arithmetic of the code decides between the two neighbours.
\<close>

theorem fuse_algorithm:
  "(emotion t = emotion a \<longrightarrow> emotion (fuseEmotionResults t a) = emotion t)
   \<and> (emotion t \<noteq> emotion a \<longrightarrow>
        emotion (fuseEmotionResults t a)
          = (if confidence a > confidence t then emotion a else emotion t))
   \<and> (0 \<le> intensity t \<and> intensity t \<le> 1 \<and> 0 \<le> intensity a \<and> intensity a \<le> 1
        \<and> awayFromTie (100 * (0.8 * intensity t + 0.2 * intensity a))
        \<longrightarrow> intensity (fuseEmotionResults t a)
              = toFixed 2 (0.8 * intensity t + 0.2 * intensity a))
   \<and> (0 \<le> confidence t \<and> confidence t \<le> 1 \<and> 0 \<le> confidence a \<and> confidence a \<le> 1
        \<and> emotion t = emotion a
        \<and> awayFromTie (100 * min ((0.8 * confidence t + 0.2 * confidence a) * 1.2) 0.95)
        \<longrightarrow> confidence (fuseEmotionResults t a)
              = toFixed 2 (min ((0.8 * confidence t + 0.2 * confidence a) * 1.2) 0.95))
   \<and> (0 \<le> confidence t \<and> confidence t \<le> 1 \<and> 0 \<le> confidence a \<and> confidence a \<le> 1
        \<and> emotion t \<noteq> emotion a
        \<and> awayFromTie (100 * ((0.8 * confidence t + 0.2 * confidence a) * 0.8))
        \<longrightarrow> confidence (fuseEmotionResults t a)
              = toFixed 2 ((0.8 * confidence t + 0.2 * confidence a) * 0.8))"
  by (simp add: fuseEmotionResults_def textWeight_def audioWeight_def Let_def mult.commute)

theorem fuse_algorithm_witness:
  "awayFromTie (100 * (0.8 * intensity exText + 0.2 * intensity exAudio))
   \<and> awayFromTie (100 * min ((0.8 * confidence exText + 0.2 * confidence exAudio) * 1.2) 0.95)
   \<and> awayFromTie (100 * ((0.8 * confidence exText + 0.2 * confidence exAudioSad) * 0.8))
   \<and> emotion exText = emotion exAudio
   \<and> emotion (fuseEmotionResults exText exAudio) = Some ''happy''
   \<and> intensity (fuseEmotionResults exText exAudio) = 0.51
   \<and> confidence (fuseEmotionResults exText exAudio) = 0.31
   \<and> emotion exText \<noteq> emotion exAudioSad
   \<and> emotion (fuseEmotionResults exText exAudioSad) = Some ''sad''
   \<and> confidence (fuseEmotionResults exText exAudioSad) = 0.21"
proof -
  have t1: "awayFromTie (100 * (0.8 * intensity exText + 0.2 * intensity exAudio))"
    by (simp add: awayFromTie_def exText_def exAudio_def frac_def)
  have t2: "awayFromTie (100 * min ((0.8 * confidence exText + 0.2 * confidence exAudio) * 1.2) 0.95)"
    by (simp add: awayFromTie_def exText_def exAudio_def frac_def)
  have t3: "awayFromTie (100 * ((0.8 * confidence exText + 0.2 * confidence exAudioSad) * 0.8))"
    by (simp add: awayFromTie_def exText_def exAudioSad_def frac_def)
  show ?thesis
    using fuse_algorithm [of exText exAudio] fuse_algorithm [of exText exAudioSad] t1 t2 t3
    by (simp add: exText_def exAudio_def exAudioSad_def toFixed_def)
qed






section \<open>Classification\<close>

lemma pickPrimary_in:
  "pickPrimary xs acc = acc \<or> pickPrimary xs acc \<in> set xs"
proof (induction xs acc rule: pickPrimary.induct)
  case (1 acc)
  then show ?case by simp
next
  case (2 e score rest primaryEmotion maxScore)
  then show ?case by auto
qed

text \<open>
  When some keyword matches, the largest score is positive; this is what makes the
  quotient by an empty token list infinite in the code.
\<close>

lemma pickPrimary_pos:
  "0 < m \<or> 0 < sum_list (map snd xs) \<Longrightarrow> 0 < snd (pickPrimary xs (e, m))"
proof (induction xs arbitrary: e m)
  case Nil
  then show ?case by simp
next
  case (Cons x xs)
  obtain e' s where x: "x = (e', s)" by (cases x)
  show ?case
  proof (cases "s > m")
    case True
    then have "0 < s" by simp
    then have "0 < snd (pickPrimary xs (e', s))"
      by (intro Cons.IH) simp
    with True x show ?thesis by simp
  next
    case False
    with Cons.prems x have "0 < m \<or> 0 < sum_list (map snd xs)"
      by auto
    then have "0 < snd (pickPrimary xs (e, m))"
      by (rule Cons.IH)
    with False x show ?thesis by simp
  qed
qed

lemma maxScore_pos:
  assumes "0 < totalMatches cleanText"
  shows "0 < snd (pickPrimary (emotionScores cleanText) (''neutral'', 0))"
  using assms by (intro pickPrimary_pos) (simp add: totalMatches_def)

lemma emotionScores_keys: "map fst (emotionScores t) = keywordEmotions"
  by (simp add: emotionScores_def emotionKeywords_def keywordEmotions_def)

lemma keywords_emotion:
  "\<exists>e. emotion (analyzeTextWithKeywords S text) = Some e \<and> e \<in> set keywordEmotions"
proof -
  let ?c = "trim (toLowerCase text)"
  let ?p = "pickPrimary (emotionScores ?c) (''neutral'', 0)"
  have "?p = (''neutral'', 0) \<or> ?p \<in> set (emotionScores ?c)"
    by (rule pickPrimary_in)
  then have "fst ?p = ''neutral'' \<or> fst ?p \<in> set (map fst (emotionScores ?c))"
    by force
  then have "fst ?p \<in> set keywordEmotions"
    unfolding emotionScores_keys by (auto simp add: keywordEmotions_def)
  then show ?thesis
    by (simp add: analyzeTextWithKeywords_def Let_def split_beta keywordEmotions_def)
qed

lemma keywords_intensity:
  "0 \<le> intensity (analyzeTextWithKeywords S text) \<and> intensity (analyzeTextWithKeywords S text) \<le> 1"
proof -
  let ?c = "trim (toLowerCase text)"
  let ?s = "sentimentScore S text"
  let ?m = "real (snd (pickPrimary (emotionScores ?c) (''neutral'', 0)))"
  let ?n = "real (length (tokenize S ?c))"
  define a where "a = min (?m / ?n * 10 + \<bar>?s / 10\<bar>) 1"
  define b where "b = min (\<bar>?s\<bar> / 8) 0.8"
  define c where "c = min (?s / 10) 0.9"
  let ?x = "(if totalMatches ?c > 0
             then (if length (tokenize S ?c) = 0 then 1 else a)
             else if hasNegativeWords ?c \<or> ?s < - 1 then b
             else if ?s > 3 then c
             else 0.5)"
  have eq: "intensity (analyzeTextWithKeywords S text) = toFixed 2 ?x"
    by (simp add: analyzeTextWithKeywords_def Let_def split_beta a_def b_def c_def)
  have "0 \<le> ?m / ?n * 10 + \<bar>?s / 10\<bar>"
    by (intro add_nonneg_nonneg mult_nonneg_nonneg divide_nonneg_nonneg) simp_all
  then have a: "0 \<le> a \<and> a \<le> 1"
    unfolding a_def by (rule min_unit) simp_all
  have b: "0 \<le> b \<and> b \<le> 1"
    unfolding b_def by (rule min_unit) simp_all
  have c: "0 \<le> c \<and> c \<le> 1" if "?s > 3"
    unfolding c_def using that by (intro min_unit) simp_all
  have "0 \<le> ?x \<and> ?x \<le> 1"
    using a b c by simp
  then show ?thesis
    unfolding eq by (intro toFixed_unit) simp_all
qed

lemma keywords_confidence:
  "0 \<le> confidence (analyzeTextWithKeywords S text) \<and> confidence (analyzeTextWithKeywords S text) \<le> 1"
proof -
  let ?c = "trim (toLowerCase text)"
  let ?s = "sentimentScore S text"
  let ?m = "real (snd (pickPrimary (emotionScores ?c) (''neutral'', 0)))"
  let ?x = "(if totalMatches ?c > 0 then min (0.7 + ?m * 0.1) 0.9
             else min (0.4 + \<bar>?s\<bar> * 0.05) 0.7)"
  have eq: "confidence (analyzeTextWithKeywords S text) = toFixed 2 ?x"
    by (simp add: analyzeTextWithKeywords_def Let_def split_beta)
  have "0 \<le> ?x \<and> ?x \<le> 1"
    by (simp add: min_def)
  then show ?thesis
    unfolding eq by (intro toFixed_unit) simp_all
qed

lemma keywords_method:
  "analysis_method (analyzeTextWithKeywords S text) = ''keyword_sentiment_hybrid''"
  by (simp add: analyzeTextWithKeywords_def Let_def split_beta)

lemma keywords_wellFormed: "wellFormed (analyzeTextWithKeywords S text)"
proof -
  obtain e where e: "emotion (analyzeTextWithKeywords S text) = Some e" "e \<in> set keywordEmotions"
    using keywords_emotion by blast
  then have "e \<in> set closedEmotions"
    by (auto simp add: keywordEmotions_def closedEmotions_def)
  with e(1) show ?thesis
    using keywords_intensity [of S "text"] keywords_confidence [of S "text"]
    by (simp add: wellFormed_def)
qed

lemma analyzeTextWithAI_cases:
  "analyzeTextWithAI S s = analyzeTextWithKeywords S s
   \<or> (\<exists>p e i c. configuredProvider S = Some p \<and> callProvider S p s = AIReply e (Some i) (Some c)
         \<and> analyzeTextWithAI S s
             = \<lparr>emotion = e, intensity = toFixed 2 i, confidence = toFixed 2 c,
                analysis_method = ''ai_powered''\<rparr>)"
  by (simp add: analyzeTextWithAI_def split: option.split ai_reply.split)

lemma analyzeTextWithAI_throws:
  assumes "remoteStepThrows S s"
  shows "analyzeTextWithAI S s = analyzeTextWithKeywords S s"
  using assms
  by (auto simp add: analyzeTextWithAI_def remoteStepThrows_def split: option.splits ai_reply.splits)

text \<open>
  Claim C1, as stated: on the remote path too the result has intensity and confidence in
  [0,1] and an emotion of the closed set, an unknown label becoming \<open>neutral\<close>. The
  remote path copies the reply: a provider that answers \<open>hopeful\<close> with intensity 1.5
  and confidence 2 gives exactly that result.
\<close>

theorem classify_remote_unchecked_counterexample:
  "analyzeText exOutOfRange (JStr ''happy day'')
     = Inr \<lparr>emotion = Some ''hopeful'', intensity = 1.5, confidence = 2,
            analysis_method = ''ai_powered''\<rparr>
   \<and> \<not> wellFormed \<lparr>emotion = Some ''hopeful'', intensity = 1.5, confidence = 2,
                    analysis_method = ''ai_powered''\<rparr>"
  by (simp add: analyzeText_def useAI_def analyzeTextWithAI_def configuredProvider_def
        example_services toFixed_def wellFormed_def closedEmotions_def)

text \<open>
  Claim C1, amended. A result of \<open>analyzeText\<close> comes from one of two paths. From the
  keyword classifier (no provider, or a remote step that failed) it has intensity and
  confidence in [0,1] and one of the six emotions happy, sad, angry, anxious, calm,
  neutral. From the provider it is the reply itself: the emotion as given, intensity and
  confidence to two decimals, with no clamping and no fall-back to \<open>neutral\<close>.
\<close>

theorem classify_range:
  assumes "analyzeText S text = Inr r"
  shows "(analysis_method r = ''keyword_sentiment_hybrid'' \<and> wellFormed r
            \<and> (\<exists>e. emotion r = Some e \<and> e \<in> set keywordEmotions))
         \<or> (\<exists>s p e i c. text = JStr s \<and> configuredProvider S = Some p
               \<and> callProvider S p s = AIReply e (Some i) (Some c)
               \<and> r = \<lparr>emotion = e, intensity = toFixed 2 i, confidence = toFixed 2 c,
                       analysis_method = ''ai_powered''\<rparr>)"
proof -
  from assms obtain s where s: "text = JStr s" "s \<noteq> []"
    by (auto simp add: analyzeText_def split: js_value.splits if_splits)
  have kw: "analysis_method (analyzeTextWithKeywords S s) = ''keyword_sentiment_hybrid''
            \<and> wellFormed (analyzeTextWithKeywords S s)
            \<and> (\<exists>e. emotion (analyzeTextWithKeywords S s) = Some e \<and> e \<in> set keywordEmotions)"
    using keywords_method keywords_wellFormed keywords_emotion by blast
  show ?thesis
  proof (cases "useAI S")
    case False
    with assms s have "r = analyzeTextWithKeywords S s"
      by (simp add: analyzeText_def)
    with kw show ?thesis by blast
  next
    case True
    with assms s have r: "r = analyzeTextWithAI S s"
      by (simp add: analyzeText_def)
    from analyzeTextWithAI_cases [of S s] show ?thesis
    proof
      assume "analyzeTextWithAI S s = analyzeTextWithKeywords S s"
      with r kw show ?thesis by simp
    next
      assume "\<exists>p e i c. configuredProvider S = Some p \<and> callProvider S p s = AIReply e (Some i) (Some c)
         \<and> analyzeTextWithAI S s
             = \<lparr>emotion = e, intensity = toFixed 2 i, confidence = toFixed 2 c,
                analysis_method = ''ai_powered''\<rparr>"
      with r s(1) show ?thesis by blast
    qed
  qed
qed

theorem classify_range_witness:
  "analyzeText exLexicon (JStr ''happy day'')
     = Inr \<lparr>emotion = Some ''happy'', intensity = 1, confidence = 0.8,
            analysis_method = ''keyword_sentiment_hybrid''\<rparr>
   \<and> wellFormed \<lparr>emotion = Some ''happy'', intensity = 1, confidence = 0.8,
                  analysis_method = ''keyword_sentiment_hybrid''\<rparr>"
proof -
  have h: "analyzeText exLexicon (JStr ''happy day'')
             = Inr \<lparr>emotion = Some ''happy'', intensity = 1, confidence = 0.8,
                    analysis_method = ''keyword_sentiment_hybrid''\<rparr>"
    by (simp add: analyzeText_def useAI_def example_services keyword_defs string_defs Let_def
          toFixed_def)
  from classify_range [OF h] h show ?thesis
    by auto
qed

text \<open>
  Claim C5, as stated: every remote failure, a reply that violates the schema included,
  falls through to the keyword classifier. A reply with a numeric intensity and
  confidence but no emotion is returned as the result, with the emotion absent.
\<close>

theorem classify_schema_counterexample:
  "analyzeText exNoEmotion (JStr ''happy day'')
     = Inr \<lparr>emotion = None, intensity = 0.5, confidence = 0.5, analysis_method = ''ai_powered''\<rparr>
   \<and> analyzeText exNoEmotion (JStr ''happy day'')
       \<noteq> Inr (analyzeTextWithKeywords exNoEmotion ''happy day'')"
proof -
  have "analyzeText exNoEmotion (JStr ''happy day'')
     = Inr \<lparr>emotion = None, intensity = 0.5, confidence = 0.5, analysis_method = ''ai_powered''\<rparr>"
    by (simp add: analyzeText_def useAI_def analyzeTextWithAI_def configuredProvider_def
        example_services toFixed_def)
  moreover have "analyzeTextWithKeywords exNoEmotion ''happy day''
      \<noteq> \<lparr>emotion = None, intensity = 0.5, confidence = 0.5, analysis_method = ''ai_powered''\<rparr>"
  proof
    assume "analyzeTextWithKeywords exNoEmotion ''happy day''
      = \<lparr>emotion = None, intensity = 0.5, confidence = 0.5, analysis_method = ''ai_powered''\<rparr>"
    then have "analysis_method (analyzeTextWithKeywords exNoEmotion ''happy day'') = ''ai_powered''"
      by simp
    then show False
      by (simp add: keywords_method)
  qed
  ultimately show ?thesis
    by simp
qed

lemma analyzeTextWithAI_reply:
  assumes "configuredProvider S = Some p"
    and "callProvider S p s = AIReply e (Some i) (Some c)"
  shows "analyzeTextWithAI S s
           = \<lparr>emotion = e, intensity = toFixed 2 i, confidence = toFixed 2 c,
              analysis_method = ''ai_powered''\<rparr>"
  using assms by (simp add: analyzeTextWithAI_def)

lemma useAI_configured: "useAI S = (configuredProvider S \<noteq> None)"
  by (simp add: useAI_def configuredProvider_def)

text \<open>
  Claim C5, amended. \<open>analyzeText\<close> fails exactly when its input is not a non-empty
  string. When the remote step throws (no key, a failed or timed-out call, a reply that
  is not JSON, a reply whose intensity or confidence is not a number) the result is that
  of the keyword classifier. A reply that has both numbers is returned as the result,
  the numbers to two decimals and the emotion as it is, present or not.
\<close>

theorem classify_errors:
  "isl (analyzeText S text) = invalidInput text
   \<and> (s \<noteq> [] \<and> remoteStepThrows S s
        \<longrightarrow> analyzeText S (JStr s) = Inr (analyzeTextWithKeywords S s))
   \<and> (s \<noteq> [] \<and> configuredProvider S = Some p
        \<and> callProvider S p s = AIReply e (Some i) (Some c)
        \<longrightarrow> analyzeText S (JStr s)
              = Inr \<lparr>emotion = e, intensity = toFixed 2 i, confidence = toFixed 2 c,
                     analysis_method = ''ai_powered''\<rparr>)"
proof -
  have "isl (analyzeText S text) = invalidInput text"
    by (cases "text") (simp_all add: analyzeText_def)
  moreover have "analyzeText S (JStr s) = Inr (analyzeTextWithKeywords S s)"
    if "s \<noteq> []" and "remoteStepThrows S s"
    using that by (simp add: analyzeText_def analyzeTextWithAI_throws)
  moreover have "analyzeText S (JStr s)
              = Inr \<lparr>emotion = e, intensity = toFixed 2 i, confidence = toFixed 2 c,
                     analysis_method = ''ai_powered''\<rparr>"
    if "s \<noteq> []" and "configuredProvider S = Some p"
      and "callProvider S p s = AIReply e (Some i) (Some c)"
    using that by (simp add: analyzeText_def useAI_configured analyzeTextWithAI_reply)
  ultimately show ?thesis
    by blast
qed

theorem classify_errors_witness:
  "invalidInput JNull \<and> isl (analyzeText exDown JNull)
   \<and> \<not> invalidInput (JStr ''happy day'') \<and> \<not> isl (analyzeText exDown (JStr ''happy day''))
   \<and> remoteStepThrows exDown ''happy day''
   \<and> analyzeText exDown (JStr ''happy day'') = Inr (analyzeTextWithKeywords exDown ''happy day'')
   \<and> configuredProvider exOutOfRange = Some Gemini
   \<and> callProvider exOutOfRange Gemini ''happy day'' = AIReply (Some ''hopeful'') (Some 1.5) (Some 2)
   \<and> analyzeText exOutOfRange (JStr ''happy day'')
       = Inr \<lparr>emotion = Some ''hopeful'', intensity = toFixed 2 1.5, confidence = toFixed 2 2,
              analysis_method = ''ai_powered''\<rparr>"
proof -
  have h: "remoteStepThrows exDown ''happy day''"
    by (simp add: remoteStepThrows_def configuredProvider_def example_services)
  have p: "configuredProvider exOutOfRange = Some Gemini"
    by (simp add: configuredProvider_def example_services)
  have c: "callProvider exOutOfRange Gemini ''happy day'' = AIReply (Some ''hopeful'') (Some 1.5) (Some 2)"
    by (simp add: example_services)
  show ?thesis
    using classify_errors [of exDown JNull "''happy day''"]
      classify_errors [of exDown "JStr ''happy day''" "''happy day''"]
      classify_errors [of exOutOfRange JNull "''happy day''" Gemini "Some ''hopeful''" "1.5" 2] h p c
    by simp
qed

text \<open>
  Claim C10, as stated: without a keyword match, a text of negative polarity is
  \<open>sad\<close>. The code asks for a sentiment score below -1: a text without keyword and
  without negative prefix whose score is -1 is \<open>neutral\<close>.
\<close>

theorem lexicon_negative_polarity_counterexample:
  "totalMatches (trim (toLowerCase ''I cut the paper'')) = 0
   \<and> sentimentScore exLexicon ''I cut the paper'' = - 1
   \<and> emotion (analyzeTextWithKeywords exLexicon ''I cut the paper'') = Some ''neutral''"
  by (simp add: example_services keyword_defs string_defs Let_def)

text \<open>
  Claim C10, amended. Without a keyword match the emotion is \<open>sad\<close> when a word of the
  text starts with one of un, not, never, no, dis, hate, terrible, awful, bad, worse,
  worst, unfortunately, sadly, or when the sentiment score is below -1; otherwise
  \<open>happy\<close> when the score is above 3; otherwise \<open>neutral\<close>.
\<close>

theorem lexicon_no_match:
  assumes "totalMatches (trim (toLowerCase text)) = 0"
  shows "emotion (analyzeTextWithKeywords S text)
           = Some (if hasNegativeWords (trim (toLowerCase text)) \<or> sentimentScore S text < - 1
                   then ''sad''
                   else if sentimentScore S text > 3 then ''happy''
                   else ''neutral'')"
  using assms by (simp add: analyzeTextWithKeywords_def Let_def)

theorem lexicon_no_match_witness:
  "totalMatches (trim (toLowerCase ''Not today'')) = 0
   \<and> hasNegativeWords (trim (toLowerCase ''Not today''))
   \<and> emotion (analyzeTextWithKeywords exLexicon ''Not today'') = Some ''sad''"
proof -
  have h: "totalMatches (trim (toLowerCase ''Not today'')) = 0"
    by (simp add: totalMatches_def emotionScores_def emotionKeywords_def countMatches_def string_defs)
  have n: "hasNegativeWords (trim (toLowerCase ''Not today''))"
    by (simp add: hasNegativeWords_def negativePrefixes_def string_defs)
  from lexicon_no_match [OF h, of exLexicon] h n show ?thesis
    by simp
qed

section \<open>Wellness aggregation\<close>

lemma foldl_accumulate:
  "foldl accumulate (s, w) qs = (s + sum_list (map entryScore qs), w + real (length qs))"
  by (induction qs arbitrary: s w) (simp_all add: accumulate_def algebra_simps)

lemma keys_countEmotion:
  "map fst (countEmotion cs k) = (if k \<in> set (map fst cs) then map fst cs else map fst cs @ [k])"
  by (induction cs k rule: countEmotion.induct) auto

lemma countOf_countEmotion:
  "countOf (countEmotion cs k) l = (if l = k then countOf cs k + 1 else countOf cs l)"
  by (induction cs k rule: countEmotion.induct) (auto simp add: countOf_def)

lemma keys_foldl_snoc:
  "map fst (foldl countEmotion [] (ls @ [x]))
     = map fst (foldl countEmotion [] ls)
         @ (if x \<in> set (map fst (foldl countEmotion [] ls)) then [] else [x])"
  by (simp add: keys_countEmotion)

lemma keys_set: "set (map fst (foldl countEmotion [] ls)) = set ls"
  by (induction ls rule: rev_induct) (auto simp add: keys_countEmotion)

lemma keys_distinct: "distinct (map fst (foldl countEmotion [] ls))"
  by (induction ls rule: rev_induct) (auto simp add: keys_countEmotion)

lemma countOf_Nil: "countOf [] l = 0"
  by (simp add: countOf_def)

lemma countOf_foldl: "countOf (foldl countEmotion [] ls) l = count_list ls l"
  by (induction ls rule: rev_induct) (auto simp add: countOf_countEmotion countOf_Nil)

text \<open>The keys written before a key are the labels seen before its first occurrence.\<close>

lemma keys_before:
  assumes "k \<in> set ls"
  shows "set (takeWhile (\<lambda>x. x \<noteq> k) (map fst (foldl countEmotion [] ls)))
           = set (takeWhile (\<lambda>x. x \<noteq> k) ls)"
  using assms
proof (induction ls rule: rev_induct)
  case Nil
  then show ?case by simp
next
  case (snoc x xs)
  let ?ks = "map fst (foldl countEmotion [] xs)"
  show ?case
  proof (cases "k \<in> set xs")
    case True
    then have "k \<in> set ?ks" by (simp only: keys_set)
    then have "takeWhile (\<lambda>x. x \<noteq> k) (?ks @ (if x \<in> set ?ks then [] else [x]))
                 = takeWhile (\<lambda>x. x \<noteq> k) ?ks"
      by (intro takeWhile_append1 [where x = k]) simp_all
    moreover have "takeWhile (\<lambda>x. x \<noteq> k) (xs @ [x]) = takeWhile (\<lambda>x. x \<noteq> k) xs"
      using True by (intro takeWhile_append1 [where x = k]) simp_all
    ultimately show ?thesis
      using snoc.IH [OF True] by (simp only: keys_foldl_snoc)
  next
    case False
    with snoc.prems have kx: "k = x" by simp
    have nk: "x \<notin> set ?ks" using False kx by (simp only: keys_set) simp
    have "takeWhile (\<lambda>y. y \<noteq> x) (?ks @ [x]) = ?ks"
      using nk by (subst takeWhile_append2) auto
    moreover have "takeWhile (\<lambda>y. y \<noteq> x) (xs @ [x]) = xs"
      using False kx by (subst takeWhile_append2) auto
    ultimately show ?thesis
      using nk kx by (simp only: keys_foldl_snoc keys_set if_False)
  qed
qed

text \<open>
  The reduction keeps the later of two keys unless the earlier has strictly more: its
  result has the largest count, and every other key with that count stands before it.
\<close>

lemma reduce_last_max:
  fixes c :: "'a \<Rightarrow> nat"
  assumes "distinct (k # ks)"
  defines "r \<equiv> foldl (\<lambda>a b. if c a > c b then a else b) k ks"
  shows "r \<in> set (k # ks) \<and> (\<forall>x \<in> set (k # ks). c x \<le> c r)
         \<and> (\<forall>x \<in> set (k # ks). c x = c r
               \<longrightarrow> x = r \<or> x \<in> set (takeWhile (\<lambda>y. y \<noteq> r) (k # ks)))"
  using assms(1) unfolding r_def
proof (induction ks rule: rev_induct)
  case Nil
  then show ?case by simp
next
  case (snoc b bs)
  let ?f = "\<lambda>a b. if c a > c b then a else b"
  let ?r0 = "foldl ?f k bs"
  from snoc.prems have d: "distinct (k # bs)" and nb: "b \<notin> set (k # bs)" by auto
  note IH = snoc.IH [OF d]
  show ?case
  proof (cases "c ?r0 > c b")
    case True
    then have r: "foldl ?f k (bs @ [b]) = ?r0" by simp
    have tw: "takeWhile (\<lambda>y. y \<noteq> ?r0) ((k # bs) @ [b]) = takeWhile (\<lambda>y. y \<noteq> ?r0) (k # bs)"
      using IH by (intro takeWhile_append1 [where x = "?r0"]) simp_all
    show ?thesis
      unfolding r using IH True tw by auto
  next
    case False
    then have r: "foldl ?f k (bs @ [b]) = b" by simp
    have tw: "takeWhile (\<lambda>y. y \<noteq> b) ((k # bs) @ [b]) = k # bs"
      using nb by (subst takeWhile_append2) auto
    have le: "\<forall>x \<in> set (k # bs). c x \<le> c b"
      using IH False by force
    show ?thesis
      unfolding r using le tw by auto
  qed
qed

lemmas wellness_defs = calculateWellnessScore_def accumulate_def entryScore_def baseScore_def
  intensityOrDefault_def emotionKey_def emotionScores_wellness_def Math_round_def exTurn_def

text \<open>
  Claim C2, as stated: on an empty session no wellness score is produced.
  \<open>calculateWellnessScore\<close> returns its neutral baseline 50 for the empty session.
\<close>

theorem empty_session_score_counterexample:
  "calculateWellnessScore [] = 50"
  by (simp add: calculateWellnessScore_def)

text \<open>
  Claim C2, amended. On the empty session \<open>generateSessionCompletion\<close> fails, with the
  \<open>TypeError\<close> of reducing an empty list of keys, and returns no report;
  \<open>calculateWellnessScore\<close> called alone returns the baseline 50.
\<close>

theorem empty_session:
  "generateSessionCompletion [] = Inl (TypeError ''Reduce of empty array with no initial value'')
   \<and> calculateWellnessScore [] = 50"
  by (simp add: generateSessionCompletion_def reduceDominant_def calculateWellnessScore_def Let_def)

text \<open>
  Claim C3, as stated: of several emotions with the largest count the one that occurs
  first in the session is the dominant one. For happy followed by sad, one each, the
  dominant emotion is sad.
\<close>

theorem dominant_tie_counterexample:
  "generateSessionCompletion [exTurn ''happy'' 1, exTurn ''sad'' 1]
     = Inr \<lparr>wellnessScore = 60,
            wellnessMessage = ''You are managing well. Small steps lead to big changes.'',
            wellnessColor = ''text-yellow-600'',
            dominantEmotion = ''sad'',
            emotionCounts = [(''happy'', 1), (''sad'', 1)]\<rparr>"
  by (simp add: generateSessionCompletion_def reduceDominant_def countOf_def wellness_defs Let_def)

text \<open>
  Claim C3, amended. For a session that is not empty and whose labels name no inherited
  member and no array index, a report is returned; its dominant emotion is a label of
  the session, no label occurs more often, and every other label that occurs as often
  has occurred before the dominant one first does: of several emotions with the largest
  count the one whose first occurrence is the latest is chosen.
\<close>

theorem dominant_emotion:
  assumes "qaHistory \<noteq> []"
    and "\<forall>q \<in> set qaHistory. ordinaryLabel (emotionKey q)"
  shows "\<exists>rep. generateSessionCompletion qaHistory = Inr rep
           \<and> dominantEmotion rep \<in> set (map emotionKey qaHistory)
           \<and> (\<forall>l. count_list (map emotionKey qaHistory) l
                   \<le> count_list (map emotionKey qaHistory) (dominantEmotion rep))
           \<and> (\<forall>l \<in> set (map emotionKey qaHistory).
                 count_list (map emotionKey qaHistory) l
                   = count_list (map emotionKey qaHistory) (dominantEmotion rep)
                 \<longrightarrow> l = dominantEmotion rep
                     \<or> l \<in> set (takeWhile (\<lambda>x. x \<noteq> dominantEmotion rep)
                                  (map emotionKey qaHistory)))"
proof -
  let ?ls = "map emotionKey qaHistory"
  let ?cs = "foldl countEmotion [] ?ls"
  let ?c = "\<lambda>l. count_list ?ls l"
  from assms(1) have "set ?ls \<noteq> {}" by simp
  then have "map fst ?cs \<noteq> []"
    by (metis keys_set set_empty)
  then obtain k ks where kks: "map fst ?cs = k # ks"
    by (cases "map fst ?cs") auto
  define d where "d = foldl (\<lambda>a b. if ?c a > ?c b then a else b) k ks"
  have red: "reduceDominant ?cs = Inr d"
    by (simp add: reduceDominant_def kks d_def countOf_foldl)
  have dist: "distinct (k # ks)"
    using keys_distinct [of ?ls] by (simp only: kks)
  have setk: "set (k # ks) = set ?ls"
    using keys_set [of ?ls] by (simp only: kks)
  from reduce_last_max [OF dist, of ?c]
  have d_in: "d \<in> set ?ls"
    and d_max: "\<forall>x \<in> set ?ls. ?c x \<le> ?c d"
    and d_last: "\<forall>x \<in> set ?ls. ?c x = ?c d
                   \<longrightarrow> x = d \<or> x \<in> set (takeWhile (\<lambda>y. y \<noteq> d) (k # ks))"
    unfolding d_def [symmetric] setk by blast+
  have before: "set (takeWhile (\<lambda>y. y \<noteq> d) (k # ks)) = set (takeWhile (\<lambda>y. y \<noteq> d) ?ls)"
    using keys_before [OF d_in] by (simp only: kks)
  have all_max: "\<forall>l. ?c l \<le> ?c d"
  proof
    fix l
    show "?c l \<le> ?c d"
    proof (cases "l \<in> set ?ls")
      case True
      with d_max show ?thesis by blast
    next
      case False
      then have "?c l = 0" by (simp add: count_list_0_iff)
      then show ?thesis by simp
    qed
  qed
  obtain rep where rep: "generateSessionCompletion qaHistory = Inr rep"
    and dom: "dominantEmotion rep = d"
    using red by (simp add: generateSessionCompletion_def Let_def)
  have d_last': "\<forall>x \<in> set ?ls. ?c x = ?c d
                   \<longrightarrow> x = d \<or> x \<in> set (takeWhile (\<lambda>y. y \<noteq> d) ?ls)"
    using d_last unfolding before .
  show ?thesis
    using rep d_in all_max d_last' unfolding dom [symmetric] by (intro exI [of _ rep]) blast
qed

theorem dominant_emotion_witness:
  "exSession \<noteq> []
   \<and> map emotionKey exSession = [''happy'', ''sad'', ''happy'']
   \<and> ordinaryLabel ''happy'' \<and> ordinaryLabel ''sad''
   \<and> (\<exists>rep. generateSessionCompletion exSession = Inr rep
         \<and> dominantEmotion rep \<in> set (map emotionKey exSession)
         \<and> count_list (map emotionKey exSession) ''happy''
             \<le> count_list (map emotionKey exSession) (dominantEmotion rep))"
proof -
  have ne: "exSession \<noteq> []"
    by (simp add: exSession_def)
  have ls: "map emotionKey exSession = [''happy'', ''sad'', ''happy'']"
    by (simp add: exSession_def exTurn_def emotionKey_def)
  have ol: "ordinaryLabel ''happy''" "ordinaryLabel ''sad''"
    by (simp_all add: ordinaryLabel_def inheritedNames_def indexLike_def isDigit_def)
  have "\<forall>l \<in> set (map emotionKey exSession). ordinaryLabel l"
    unfolding ls using ol by simp
  then have all: "\<forall>q \<in> set exSession. ordinaryLabel (emotionKey q)"
    by simp
  from dominant_emotion [OF ne all] obtain rep
    where "generateSessionCompletion exSession = Inr rep"
      and "dominantEmotion rep \<in> set (map emotionKey exSession)"
      and "\<forall>l. count_list (map emotionKey exSession) l
                 \<le> count_list (map emotionKey exSession) (dominantEmotion rep)"
    by blast
  then have "\<exists>rep. generateSessionCompletion exSession = Inr rep
         \<and> dominantEmotion rep \<in> set (map emotionKey exSession)
         \<and> count_list (map emotionKey exSession) ''happy''
             \<le> count_list (map emotionKey exSession) (dominantEmotion rep)"
    by blast
  with ne ls ol show ?thesis
    by (simp only: simp_thms)
qed

text \<open>
  Claim C4, as stated: an entry whose emotion is not in the table is scored with the
  base of neutral, 60. The code scores it with 50: one entry of emotion \<open>tired\<close> and
  intensity 1 gives the score 50, where the claim gives 60.
\<close>

theorem wellness_unknown_emotion_counterexample:
  "calculateWellnessScore [exTurn ''tired'' 1] = 50
   \<and> claimedWellnessScore [exTurn ''tired'' 1] = 60"
  by (simp add: wellness_defs claimedWellnessScore_def claimedEntryScore_def Let_def)

text \<open>
  Claim C4, amended. Take a session of one to a thousand entries whose labels name no
  inherited member and whose intensities are missing or lie in (0,1]. Its wellness score
  is the average over the entries of \<open>base * intensity + 60 * (1 - intensity)\<close>,
  rounded to the nearest integer and clamped to [0,100], where the base is that of the
  table and 50 for an emotion that is missing or not in the table, and a missing
  intensity counts as 0.5. An average within \<open>10\<^sup>-\<^sup>9\<close> of a half is left out: there
  the double arithmetic of the code decides between the two neighbours.
\<close>

theorem wellness_score_formula:
  assumes "qaHistory \<noteq> []" and "length qaHistory \<le> 1000"
    and "\<forall>q \<in> set qaHistory. emotionKey q \<notin> set inheritedNames"
    and "\<forall>q \<in> set qaHistory. usableIntensity q"
    and "awayFromTie (sum_list (map defaultedEntryScore qaHistory) / real (length qaHistory))"
  shows "calculateWellnessScore qaHistory
           = max 0 (min 100 (Math_round
               (sum_list (map defaultedEntryScore qaHistory) / real (length qaHistory))))"
proof -
  have "entryScore q = defaultedEntryScore q" if "q \<in> set qaHistory" for q
  proof -
    from assms(4) that have "usableIntensity q" by blast
    then show ?thesis
      by (auto simp add: entryScore_def baseScore_def intensityOrDefault_def
            defaultedEntryScore_def usableIntensity_def Let_def split: option.splits)
  qed
  then have m: "map entryScore qaHistory = map defaultedEntryScore qaHistory"
    by (rule map_cong [OF refl])
  have "calculateWellnessScore qaHistory
          = max 0 (min 100 (Math_round (sum_list (map entryScore qaHistory) / real (length qaHistory))))"
    using assms(1) by (simp add: calculateWellnessScore_def foldl_accumulate Let_def)
  then show ?thesis
    by (simp only: m)
qed

theorem wellness_score_formula_witness:
  "exSessionMixed \<noteq> [] \<and> length exSessionMixed \<le> 1000
   \<and> map emotionKey exSessionMixed = [''anxious'', ''happy'', ''sad'']
   \<and> map qa_intensity exSessionMixed = [Some 0.5, Some 1, Some 0.25]
   \<and> sum_list (map defaultedEntryScore exSessionMixed) / real (length exSessionMixed) = 190 / 3
   \<and> awayFromTie (190 / 3)
   \<and> calculateWellnessScore exSessionMixed = 63"
proof -
  have ne: "exSessionMixed \<noteq> []" "length exSessionMixed \<le> 1000"
    by (simp_all add: exSessionMixed_def)
  have ls: "map emotionKey exSessionMixed = [''anxious'', ''happy'', ''sad'']"
    by (simp add: exSessionMixed_def exTurn_def emotionKey_def)
  have ints: "map qa_intensity exSessionMixed = [Some 0.5, Some 1, Some 0.25]"
    by (simp add: exSessionMixed_def exTurn_def)
  have own: "\<forall>q \<in> set exSessionMixed. emotionKey q \<notin> set inheritedNames"
    by (simp add: exSessionMixed_def exTurn_def emotionKey_def inheritedNames_def)
  have us: "\<forall>q \<in> set exSessionMixed. usableIntensity q"
    by (simp add: exSessionMixed_def exTurn_def usableIntensity_def)
  have avg: "sum_list (map defaultedEntryScore exSessionMixed) / real (length exSessionMixed) = 190 / 3"
    by (simp add: exSessionMixed_def exTurn_def defaultedEntryScore_def emotionKey_def
          emotionScores_wellness_def Let_def)
  have tie: "awayFromTie (190 / 3)"
    by (simp add: awayFromTie_def frac_def)
  have "calculateWellnessScore exSessionMixed = 63"
    using wellness_score_formula [OF ne own us] tie unfolding avg
    by (simp add: Math_round_def)
  with ne ls ints avg tie show ?thesis
    by (simp only: simp_thms)
qed

section \<open>Compatibility scoring\<close>

lemma dot_commute: "dot u v = dot v u"
proof -
  have "map (\<lambda>(x, y). x * y) (zip u v) = map (\<lambda>(x, y). x * y) (zip v u)"
  proof (induction u arbitrary: v)
    case Nil
    then show ?case by simp
  next
    case (Cons a u)
    then show ?case by (cases v) (simp_all add: mult.commute)
  qed
  then show ?thesis
    by (simp add: dot_def)
qed

lemma cosineDistance_sym: "cosineDistance u v = cosineDistance v u"
  by (simp add: cosineDistance_def dot_commute [of u v] mult.commute)

lemma string_similarity_sym:
  "calculateStringSimilarity a b = calculateStringSimilarity b a"
  by (auto simp add: calculateStringSimilarity_def Let_def Int_commute Un_commute)

lemma location_sym: "calculateLocationMatch u v = calculateLocationMatch v u"
proof (cases "user_city u")
  case None
  then show ?thesis
    by (simp add: calculateLocationMatch_def split: option.split)
next
  case (Some c1)
  show ?thesis
  proof (cases "user_city v")
    case None
    with Some show ?thesis by (simp add: calculateLocationMatch_def)
  next
    case (Some c2)
    with \<open>user_city u = Some c1\<close> show ?thesis
      by (simp add: calculateLocationMatch_def Let_def
            string_similarity_sym [of "trim (toLowerCase c1)"]
            eq_commute [of "trim (toLowerCase c1)"] disj_commute)
  qed
qed

lemma mood_sym:
  assumes "\<And>x y. cosine x y = cosine y x"
  shows "calculateMoodSimilarity cosine e1 e2 = calculateMoodSimilarity cosine e2 e1"
  by (simp add: calculateMoodSimilarity_def Let_def assms [of "getMoodVector (lastThree e1)"]
        disj_commute)

lemma interest_sym: "calculateInterestOverlap a b = calculateInterestOverlap b a"
  by (simp add: calculateInterestOverlap_def Let_def Int_commute Un_commute disj_commute)

lemma age_sym: "calculateAgeCompatibility a b = calculateAgeCompatibility b a"
  by (cases a; cases b)
    (simp_all add: calculateAgeCompatibility_def Let_def abs_minus_commute disj_commute)

lemma activity_sym: "calculateActivityMatch a b = calculateActivityMatch b a"
  by (simp add: calculateActivityMatch_def Let_def max.commute min.commute conj_commute)

lemma interest_self:
  assumes "l \<noteq> []"
  shows "calculateInterestOverlap l l = 1"
proof -
  have "set (map toLowerCase l) \<noteq> {}" using assms by simp
  then have "card (set (map toLowerCase l)) \<noteq> 0" by (simp only: card_eq_0_iff) simp
  with assms show ?thesis
    by (simp add: calculateInterestOverlap_def Let_def)
qed

lemmas matching_defs = calculateMatchScore_def calculateLocationMatch_def
  calculateMoodSimilarity_def calculateInterestOverlap_def calculateAgeCompatibility_def
  calculateActivityMatch_def interestsOrEmpty_def weights_def getMoodVector_def lastThree_def
  vectorOf_def emotionVectors_def cosineDistance_def dot_def

lemma toFixed_near:
  assumes "0 \<le> x"
  shows "\<bar>toFixed d x - x\<bar> \<le> 1 / (2 * 10 ^ d)"
proof -
  let ?y = "x * 10 ^ d + 1 / 2"
  have p: "(0::real) < 10 ^ d" by simp
  have lo: "?y - 1 < of_int \<lfloor>?y\<rfloor>" and hi: "of_int \<lfloor>?y\<rfloor> \<le> ?y"
    by linarith+
  have eq: "toFixed d x - x = (of_int \<lfloor>?y\<rfloor> - x * 10 ^ d) / 10 ^ d"
    using assms by (simp add: toFixed_def field_simps)
  have "\<bar>of_int \<lfloor>?y\<rfloor> - x * 10 ^ d\<bar> \<le> 1 / 2"
    using lo hi by linarith
  then have "\<bar>of_int \<lfloor>?y\<rfloor> - x * 10 ^ d\<bar> / 10 ^ d \<le> (1 / 2) / 10 ^ d"
    by (intro divide_right_mono) simp_all
  moreover have "\<bar>(of_int \<lfloor>?y\<rfloor> - x * 10 ^ d) / 10 ^ d\<bar> = \<bar>of_int \<lfloor>?y\<rfloor> - x * 10 ^ d\<bar> / 10 ^ d"
    by (simp add: abs_divide)
  moreover have "(1 / 2) / (10::real) ^ d = 1 / (2 * 10 ^ d)"
    by simp
  ultimately show ?thesis
    unfolding eq by (simp only:)
qed

lemma location_self_value:
  "calculateLocationMatch P P
     = (if (case user_city P of None \<Rightarrow> False | Some c \<Rightarrow> c \<noteq> []) then 1 else 0.1)"
  by (simp add: calculateLocationMatch_def Let_def split: option.split)

lemma interest_self_value:
  "calculateInterestOverlap (interestsOrEmpty P) (interestsOrEmpty P)
     = (if (case user_interests P of None \<Rightarrow> False | Some l \<Rightarrow> l \<noteq> []) then 1 else 0.1)"
proof (cases "user_interests P")
  case None
  then show ?thesis
    by (simp add: interestsOrEmpty_def calculateInterestOverlap_def)
next
  case (Some l)
  then show ?thesis
    by (cases "l = []")
      (simp_all add: interestsOrEmpty_def interest_self, simp add: calculateInterestOverlap_def)
qed

lemma age_self_value:
  "calculateAgeCompatibility (user_age P) (user_age P)
     = (if (case user_age P of None \<Rightarrow> False | Some a \<Rightarrow> a \<noteq> 0) then 1 else 0.5)"
  by (simp add: calculateAgeCompatibility_def Let_def split: option.split)

lemma activity_self_value:
  "calculateActivityMatch H H = (if H = [] then 0.5 else 1)"
  by (simp add: calculateActivityMatch_def Let_def)

lemma mood_range:
  "0 \<le> calculateMoodSimilarity cosine e1 e2 \<and> calculateMoodSimilarity cosine e1 e2 \<le> 1"
  by (simp add: calculateMoodSimilarity_def Let_def split: option.split)

lemma mood_throws:
  assumes "cosine (getMoodVector (lastThree e1)) (getMoodVector (lastThree e2)) = None"
  shows "calculateMoodSimilarity cosine e1 e2 = 0.2"
  using assms by (simp add: calculateMoodSimilarity_def Let_def)

lemma total_unfold:
  "total_score (calculateMatchScore cosine P Q H K)
     = toFixed 3 (0.4 * calculateLocationMatch P Q + 0.35 * calculateMoodSimilarity cosine H K
         + 0.15 * calculateInterestOverlap (interestsOrEmpty P) (interestsOrEmpty Q)
         + 0.05 * calculateAgeCompatibility (user_age P) (user_age Q)
         + 0.05 * calculateActivityMatch H K)"
  by (simp add: calculateMatchScore_def weights_def Let_def mult.commute)

lemma toFixed_975: "toFixed 3 (975 / 1000) = 975 / 1000"
  using toFixed_decimal [of 975 3] by simp

lemma jaccard_le_one:
  assumes "finite A" and "finite B"
  shows "real (card (A \<inter> B)) / real (card (A \<union> B)) \<le> 1"
proof (cases "card (A \<union> B) = 0")
  case True
  then show ?thesis by simp
next
  case False
  have "card (A \<inter> B) \<le> card (A \<union> B)"
    using assms by (intro card_mono) auto
  with False show ?thesis
    by (simp add: divide_le_eq_1)
qed

lemma local_bound: "calculateMatchScore_local u v \<le> 825 / 1000"
proof -
  define L where "L = (case (user_city u, user_city v) of
               (Some c1, Some c2) \<Rightarrow>
                 if c1 \<noteq> [] \<and> c2 \<noteq> [] \<and> toLowerCase c1 = toLowerCase c2 then 1 else (0.1::real)
             | _ \<Rightarrow> 0.1)"
  define A where "A = (case (user_age u, user_age v) of
               (Some a1, Some a2) \<Rightarrow>
                 if a1 = 0 \<or> a2 = 0 then 0
                 else (let ageDiff = \<bar>a1 - a2\<bar>
                       in if ageDiff \<le> 3 then 1
                          else if ageDiff \<le> 7 then 0.8
                          else if ageDiff \<le> 12 then 0.6
                          else (0.4::real))
             | _ \<Rightarrow> 0)"
  define I where "I = (case (user_interests u, user_interests v) of
               (Some i1, Some i2) \<Rightarrow>
                 if i1 \<noteq> [] \<and> i2 \<noteq> []
                 then (let interests1 = set (map toLowerCase i1);
                           interests2 = set (map toLowerCase i2)
                       in real (card (interests1 \<inter> interests2)) / real (card (interests1 \<union> interests2)))
                 else 0
             | _ \<Rightarrow> 0)"
  have eq: "calculateMatchScore_local u v
              = real_of_int (Math_round ((L * 0.4 + 0.5 * 0.35 + I * 0.15 + A * 0.1) * 1000)) / 1000"
    by (simp add: calculateMatchScore_local_def L_def A_def I_def Let_def)
  have l: "L \<le> 1"
    by (simp add: L_def split: option.split)
  have a: "A \<le> 1"
    by (simp add: A_def Let_def split: option.split)
  have i: "I \<le> 1"
  proof (cases "user_interests u")
    case None
    then show ?thesis by (simp add: I_def)
  next
    case u: (Some i1)
    show ?thesis
    proof (cases "user_interests v")
      case None
      with u show ?thesis by (simp add: I_def)
    next
      case v: (Some i2)
      have "real (card (set (map toLowerCase i1) \<inter> set (map toLowerCase i2)))
              / real (card (set (map toLowerCase i1) \<union> set (map toLowerCase i2))) \<le> 1"
        by (intro jaccard_le_one) simp_all
      with u v show ?thesis
        by (simp add: I_def Let_def)
    qed
  qed
  have "(L * 0.4 + 0.5 * 0.35 + I * 0.15 + A * 0.1) * 1000 \<le> 825"
    using l a i by simp
  then have "Math_round ((L * 0.4 + 0.5 * 0.35 + I * 0.15 + A * 0.1) * 1000) \<le> 825"
    unfolding Math_round_def by linarith
  then have "real_of_int (Math_round ((L * 0.4 + 0.5 * 0.35 + I * 0.15 + A * 0.1) * 1000)) \<le> 825"
    by linarith
  then show ?thesis
    unfolding eq by simp
qed

text \<open>
  Claim C8, as stated: every profile scored against itself has total 1. A profile with
  city, age and interests that has no entry yet takes the defaults 0.2 for the mood
  factor and 0.5 for the activity factor and scores 0.695 against itself; the scorer of
  the local store fixes the mood factor at 0.5, so that the same profile scores 0.825
  against itself there.
\<close>

theorem score_self_counterexample:
  "completeProfile exAustin
   \<and> total_score (calculateMatchScore exThrows exAustin exAustin [] []) = 0.695
   \<and> calculateMatchScore_local exAustin exAustin = 0.825"
proof -
  have "completeProfile exAustin"
    by (simp add: completeProfile_def exAustin_def)
  moreover have "total_score (calculateMatchScore exThrows exAustin exAustin [] []) = 0.695"
    by (simp add: matching_defs exAustin_def string_defs Let_def toFixed_def card_insert_if)
  moreover have "calculateMatchScore_local exAustin exAustin = 0.825"
    by (simp add: calculateMatchScore_local_def exAustin_def string_defs Let_def Math_round_def
          card_insert_if)
  ultimately show ?thesis
    by simp
qed

text \<open>
  Claim C8, amended. In \<open>calculateMatchScore\<close> of the friend matching service, a
  profile that has a city, an age and at least one interest, with a history that is not
  empty, has the factors location, interests, age and activity equal to 1 against
  itself, so that its total is 0.65 plus 0.35 times the mood factor, to three decimals;
  when the call of \<open>cosine\<close> throws, the mood factor is the 0.2 of the \<open>catch\<close> and
  the total is 0.72. A profile with a missing field or an empty history takes the
  defaults and its total against itself is at most 0.975. The scorer of the local store
  never gives more than 0.825.
\<close>

theorem score_self:
  "(completeProfile P \<and> H \<noteq> [] \<longrightarrow>
      location (breakdown (calculateMatchScore cosine P P H H)) = 1
      \<and> interests (breakdown (calculateMatchScore cosine P P H H)) = 1
      \<and> age (breakdown (calculateMatchScore cosine P P H H)) = 1
      \<and> activity (breakdown (calculateMatchScore cosine P P H H)) = 1
      \<and> \<bar>total_score (calculateMatchScore cosine P P H H)
           - (0.65 + 0.35 * mood (breakdown (calculateMatchScore cosine P P H H)))\<bar> \<le> 6 / 10000
      \<and> (cosine (getMoodVector (lastThree H)) (getMoodVector (lastThree H)) = None
            \<longrightarrow> mood (breakdown (calculateMatchScore cosine P P H H)) = 0.2
                \<and> total_score (calculateMatchScore cosine P P H H) = 0.72))
   \<and> (\<not> completeProfile P \<or> H = [] \<longrightarrow> total_score (calculateMatchScore cosine P P H H) \<le> 0.975)
   \<and> calculateMatchScore_local u v \<le> 0.825"
proof -
  let ?m = "calculateMoodSimilarity cosine H H"
  let ?r = "calculateMatchScore cosine P P H H"
  have bd: "location (breakdown ?r) = calculateLocationMatch P P"
    "mood (breakdown ?r) = ?m"
    "interests (breakdown ?r) = calculateInterestOverlap (interestsOrEmpty P) (interestsOrEmpty P)"
    "age (breakdown ?r) = calculateAgeCompatibility (user_age P) (user_age P)"
    "activity (breakdown ?r) = calculateActivityMatch H H"
    by (simp_all add: calculateMatchScore_def Let_def)
  note vals = location_self_value [of P] interest_self_value [of P] age_self_value [of P]
    activity_self_value [of H]
  have mr: "0 \<le> ?m" "?m \<le> 1"
    using mood_range [of cosine H H] by simp_all
  have first: "location (breakdown ?r) = 1 \<and> interests (breakdown ?r) = 1
      \<and> age (breakdown ?r) = 1 \<and> activity (breakdown ?r) = 1
      \<and> \<bar>total_score ?r - (0.65 + 0.35 * mood (breakdown ?r))\<bar> \<le> 6 / 10000
      \<and> (cosine (getMoodVector (lastThree H)) (getMoodVector (lastThree H)) = None
            \<longrightarrow> mood (breakdown ?r) = 0.2 \<and> total_score ?r = 0.72)"
    if c: "completeProfile P" and h: "H \<noteq> []"
  proof -
    from c have f: "calculateLocationMatch P P = 1"
      "calculateInterestOverlap (interestsOrEmpty P) (interestsOrEmpty P) = 1"
      "calculateAgeCompatibility (user_age P) (user_age P) = 1"
      unfolding vals by (simp_all add: completeProfile_def)
    from h have g: "calculateActivityMatch H H = 1"
      unfolding vals by simp
    have t: "total_score ?r = toFixed 3 (0.65 + 0.35 * ?m)"
      unfolding total_unfold f g by simp
    have "\<bar>toFixed 3 (0.65 + 0.35 * ?m) - (0.65 + 0.35 * ?m)\<bar> \<le> 1 / (2 * 10 ^ 3)"
      using mr by (intro toFixed_near) simp
    then have near: "\<bar>total_score ?r - (0.65 + 0.35 * mood (breakdown ?r))\<bar> \<le> 6 / 10000"
      unfolding t bd by simp
    have thr: "mood (breakdown ?r) = 0.2 \<and> total_score ?r = 0.72"
      if "cosine (getMoodVector (lastThree H)) (getMoodVector (lastThree H)) = None"
    proof -
      from that have m: "?m = 0.2" by (rule mood_throws)
      have "total_score ?r = 0.72"
        unfolding t m by (simp add: toFixed_def)
      then show ?thesis
        unfolding bd m by simp
    qed
    show ?thesis
      using f g near thr unfolding bd by blast
  qed
  have second: "total_score ?r \<le> 0.975" if n: "\<not> completeProfile P \<or> H = []"
  proof -
    let ?s = "0.4 * calculateLocationMatch P P + 0.35 * ?m
         + 0.15 * calculateInterestOverlap (interestsOrEmpty P) (interestsOrEmpty P)
         + 0.05 * calculateAgeCompatibility (user_age P) (user_age P)
         + 0.05 * calculateActivityMatch H H"
    have s0: "0 \<le> ?s"
      unfolding vals using mr by simp
    have s1: "?s \<le> 975 / 1000"
      using n mr unfolding vals by (auto simp add: completeProfile_def split: option.splits)
    have "toFixed 3 ?s \<le> toFixed 3 (975 / 1000)"
      using s0 s1 by (rule toFixed_mono_nonneg)
    then show ?thesis
      unfolding total_unfold toFixed_975 by simp
  qed
  show ?thesis
    using first second local_bound [of u v] by simp
qed

theorem score_self_witness:
  "completeProfile exAustin \<and> exHistoryA \<noteq> []
   \<and> exThrows (getMoodVector (lastThree exHistoryA)) (getMoodVector (lastThree exHistoryA)) = None
   \<and> mood (breakdown (calculateMatchScore exThrows exAustin exAustin exHistoryA exHistoryA)) = 0.2
   \<and> total_score (calculateMatchScore exThrows exAustin exAustin exHistoryA exHistoryA) = 0.72
   \<and> \<not> completeProfile exNoAge
   \<and> total_score (calculateMatchScore exThrows exNoAge exNoAge exHistoryA exHistoryA) \<le> 0.975
   \<and> calculateMatchScore_local exAustin exBoston \<le> 0.825"
proof -
  have c: "completeProfile exAustin"
    by (simp add: completeProfile_def exAustin_def)
  have h: "exHistoryA \<noteq> []"
    by (simp add: exHistoryA_def)
  have t: "exThrows (getMoodVector (lastThree exHistoryA)) (getMoodVector (lastThree exHistoryA)) = None"
    by (simp add: exThrows_def)
  have n: "\<not> completeProfile exNoAge"
    by (simp add: completeProfile_def exNoAge_def)
  show ?thesis
    using score_self [of exAustin exHistoryA exThrows exAustin exBoston]
      score_self [of exNoAge exHistoryA exThrows exAustin exBoston] c h t n
    by simp
qed

text \<open>
  Claim C9. Swapping the two profiles and their histories leaves the result of
  \<open>calculateMatchScore\<close> unchanged, each of the five factors and so the total, when the
  distance taken from the library does not depend on the order of its two vectors.
\<close>

theorem score_symmetric:
  assumes "\<And>x y. cosine x y = cosine y x"
  shows "calculateMatchScore cosine userA userB entriesA entriesB
           = calculateMatchScore cosine userB userA entriesB entriesA"
  by (simp only: calculateMatchScore_def location_sym [of userA]
        mood_sym [of cosine entriesA, OF assms] interest_sym [of "interestsOrEmpty userA"]
        age_sym [of "user_age userA"] activity_sym [of entriesA])

theorem score_symmetric_witness:
  "(\<forall>x y. cosineDistance x y = cosineDistance y x)
   \<and> calculateMatchScore cosineDistance exAustin exBoston exHistoryA exHistoryB
       = calculateMatchScore cosineDistance exBoston exAustin exHistoryB exHistoryA
   \<and> location (breakdown (calculateMatchScore cosineDistance exAustin exBoston exHistoryA exHistoryB))
       = 0.1
   \<and> interests (breakdown (calculateMatchScore cosineDistance exAustin exBoston exHistoryA exHistoryB))
       = 0.5"
proof -
  have s: "cosineDistance x y = cosineDistance y x" for x y
    by (rule cosineDistance_sym)
  have "calculateMatchScore cosineDistance exAustin exBoston exHistoryA exHistoryB
          = calculateMatchScore cosineDistance exBoston exAustin exHistoryB exHistoryA"
    by (rule score_symmetric [of cosineDistance, OF s])
  moreover have "location (breakdown (calculateMatchScore cosineDistance exAustin exBoston exHistoryA exHistoryB)) = 0.1"
    by (simp add: calculateMatchScore_def calculateLocationMatch_def calculateStringSimilarity_def
          getBigrams_def exAustin_def exBoston_def string_defs Let_def upt_rec card_insert_if)
  moreover have "interests (breakdown (calculateMatchScore cosineDistance exAustin exBoston exHistoryA exHistoryB)) = 0.5"
    by (simp add: calculateMatchScore_def calculateInterestOverlap_def interestsOrEmpty_def
          exAustin_def exBoston_def string_defs Let_def card_insert_if)
  ultimately show ?thesis
    using s by simp
qed

end
